theory Spec2Isabelle
  imports Main "HOL-Library.Sublist" "HOL-Library.AList" "HOL-Library.Multiset"
begin

section \<open>Run-time values\<close>

text \<open>
  A JavaScript \<^verbatim>\<open>Error\<close> object is kept with its message. \<^verbatim>\<open>TypeError\<close> is the
  error the engine itself raises (reading a property of \<^verbatim>\<open>undefined\<close>, iterating a
  value that is not iterable, writing to a closed stream controller).
\<close>

datatype error = Error (message: string) | TypeError (message: string)

text \<open>
  What a variable typed \<^verbatim>\<open>T | null\<close> holds at run time. Types are erased, so the
  payload of a \<^verbatim>\<open>Result<T>\<close> can also be an \<^verbatim>\<open>Error\<close> object: this is what
  \<^verbatim>\<open>Result<T>(new Error(...))\<close> stores (see \<open>Result\<close> below).
\<close>

datatype 'a slot = Null | Data 'a | ErrObj error

text \<open>Truthiness of a slot: \<^verbatim>\<open>null\<close>/\<^verbatim>\<open>undefined\<close> are falsy, every object is truthy.\<close>

definition truthy :: "'a slot \<Rightarrow> bool" where
  "truthy v = (v \<noteq> Null)"

subsection \<open>type/result.ts\<close>

text \<open>
  The proxy returned by \<^verbatim>\<open>createResult\<close> answers \<^verbatim>\<open>err\<close> with \<^verbatim>\<open>target.err\<close> and
  every other string key (\<^verbatim>\<open>response\<close>, \<^verbatim>\<open>models\<close>, \<^verbatim>\<open>data\<close>) with \<^verbatim>\<open>target.data\<close>.
\<close>

record 'a result =
  data :: "'a slot"
  err :: "error option"

definition createResult :: "'a slot \<Rightarrow> error option \<Rightarrow> 'a result" where
  "createResult d e = \<lparr>data = d, err = e\<rparr>"

text \<open>
  \<^verbatim>\<open>function Result<T>(data?: T, err?: Error | null) { return createResult(data ?? null, err ?? null) }\<close>.
  The two overload signatures are erased: the implementation never inspects its first
  argument, so the one-argument call \<^verbatim>\<open>Result<T>(new Error(m))\<close> used throughout the
  repository is \<open>Result (ErrObj (Error m)) None\<close>: the error sits in the data slot and
  \<^verbatim>\<open>err\<close> is \<^verbatim>\<open>null\<close>.
\<close>

definition Result :: "'a slot \<Rightarrow> error option \<Rightarrow> 'a result" where
  "Result d e = createResult d e"

definition isErr :: "'a result \<Rightarrow> bool" where
  "isErr r = (err r \<noteq> None)"

definition isOk :: "'a result \<Rightarrow> bool" where
  "isOk r = (err r = None)"

section \<open>Model lists and filters\<close>

record modelInfo =
  model_id :: string
  created :: "int option"
  owned_by :: "string option"

subsection \<open>utils/filter.ts\<close>

definition FilterUtil_whitelist :: "modelInfo list \<Rightarrow> string set \<Rightarrow> modelInfo list" where
  "FilterUtil_whitelist models filterModelIds =
     filter (\<lambda>model. model_id model \<in> filterModelIds) models"

definition FilterUtil_blacklist :: "modelInfo list \<Rightarrow> string set \<Rightarrow> modelInfo list" where
  "FilterUtil_blacklist models filterModelIds =
     filter (\<lambda>model. \<not> (model_id model \<in> filterModelIds)) models"

datatype filter_mode = Whitelist | Blacklist

definition FilterUtil_apply ::
  "modelInfo list \<Rightarrow> string set \<Rightarrow> filter_mode \<Rightarrow> modelInfo list" where
  "FilterUtil_apply models filterModelIds mode =
     (if mode = Whitelist then FilterUtil_whitelist models filterModelIds
      else FilterUtil_blacklist models filterModelIds)"

subsection \<open>config\<close>

record providerFilter =
  filter_mode :: filter_mode
  filter_models :: "string list"

record providerConfig =
  enabled :: bool
  provider_type :: string
  endpoint :: string
  api_key :: string
  filter_cfg :: "providerFilter option"

text \<open>
  \<open>providers\<close> lists the entries of the \<^verbatim>\<open>providers\<close> object in the order
  \<^verbatim>\<open>Object.entries\<close> yields them; \<open>maxRetries\<close> and \<open>fakeStreamInterval\<close> are the
  two numbers the handlers read.
\<close>

record config =
  providers :: "(string \<times> providerConfig) list option"
  maxRetries :: int
  fakeStreamInterval :: int

definition getConfig :: "config option \<Rightarrow> error + config" where
  "getConfig globalConfig =
     (case globalConfig of
        None \<Rightarrow> Inl (Error ''Configuration not initialized. Call setConfig() first.'')
      | Some c \<Rightarrow> Inr c)"

definition getProviderConfig :: "config \<Rightarrow> string \<Rightarrow> providerConfig option" where
  "getProviderConfig cfg providerName =
     (case providers cfg of None \<Rightarrow> None | Some ps \<Rightarrow> map_of ps providerName)"

subsection \<open>ProviderManagerImpl.applyFilter\<close>

text \<open>
  The body runs inside \<^verbatim>\<open>try\<close>; the \<^verbatim>\<open>catch\<close> returns all models, which is where a
  throwing \<^verbatim>\<open>getConfig\<close> ends up.
\<close>

definition applyFilter :: "config option \<Rightarrow> string \<Rightarrow> modelInfo list \<Rightarrow> modelInfo list" where
  "applyFilter globalConfig providerName models =
     (case getConfig globalConfig of
        Inl e \<Rightarrow> models
      | Inr cfg \<Rightarrow>
          (case getProviderConfig cfg providerName of
             None \<Rightarrow> models
           | Some providerConfig \<Rightarrow>
               (case filter_cfg providerConfig of
                  None \<Rightarrow> models
                | Some f \<Rightarrow>
                    FilterUtil_apply models (set (filter_models f)) (filter_mode f))))"

text \<open>
  The filter \<open>applyFilter\<close> finds for a provider, \<^verbatim>\<open>getProviderConfig(getConfig(), name)?.filter\<close>;
  \<open>None\<close> also when the configuration is not initialised.
\<close>

definition configuredFilter :: "config option \<Rightarrow> string \<Rightarrow> providerFilter option" where
  "configuredFilter globalConfig providerName =
     (case globalConfig of
        None \<Rightarrow> None
      | Some cfg \<Rightarrow>
          (case getProviderConfig cfg providerName of
             None \<Rightarrow> None
           | Some providerConfig \<Rightarrow> filter_cfg providerConfig))"

section \<open>Requests, responses and provider clients\<close>

record chatMessage =
  role :: string
  content :: "string option"

text \<open>
  \<open>stream\<close> is optional in the schema (\<open>None\<close> when the caller left it out);
  \<open>params\<close> stands for the remaining optional request fields, which no code of the
  core reads.
\<close>

record request =
  model :: string
  messages :: "chatMessage list"
  stream :: "bool option"
  params :: "(string \<times> string) list"

record usage =
  prompt_tokens :: int
  completion_tokens :: int
  total_tokens :: int

record choice =
  index :: int
  choice_message :: chatMessage
  finish_reason :: "string option"

record response =
  response_id :: string
  response_created :: int
  response_model :: string
  choices :: "choice list"
  usage :: usage

text \<open>
  Every call that reaches a provider client is logged with the client's name;
  \<open>RouterCall\<close> logs an invocation of \<^verbatim>\<open>ProviderRouter.completion\<close> itself. The log
  is the only instrumentation added to the code.
\<close>

datatype call =
    CreateCall string
  | CompletionCall string request
  | ModelsCall string
  | RefreshModelsCall string
  | RouterCall request

text \<open>
  The \<^verbatim>\<open>ProviderClient\<close> interface. A client is an object outside the core; what a
  method answers may depend on everything that happened before, so each method is a
  function of the log. A method answers with any \<^verbatim>\<open>Result\<close> object.
\<close>

record client =
  getName :: string
  client_create :: "call list \<Rightarrow> unit result"
  client_completion :: "call list \<Rightarrow> request \<Rightarrow> response result"
  client_models :: "call list \<Rightarrow> modelInfo list result"
  client_refreshModels :: "call list \<Rightarrow> modelInfo list result"

type_synonym providerFactory = "string \<Rightarrow> providerConfig \<Rightarrow> client"

text \<open>
  The process state: the global configuration, the registry's factories, and the
  manager's two maps. A \<^verbatim>\<open>Map\<close> is the list of its entries in insertion order;
  \<^verbatim>\<open>get\<close> is \<open>map_of\<close>, \<^verbatim>\<open>set\<close> is \<open>AList.update\<close> (an existing key keeps its
  place, a new key goes last) and \<^verbatim>\<open>delete\<close> is \<open>AList.delete\<close>.
\<close>

record world =
  globalConfig :: "config option"
  factories :: "(string \<times> providerFactory) list"
  clients :: "(string \<times> client) list"
  modelAliasesMapping :: "(string \<times> string) list"
  trace :: "call list"

definition logCall :: "call \<Rightarrow> world \<Rightarrow> world" where
  "logCall c w = w\<lparr>trace := trace w @ [c]\<rparr>"

text \<open>Errors raised by the engine; the wording of the message is the engine's.\<close>

definition undefinedProperty :: "string \<Rightarrow> error" where
  "undefinedProperty expr =
     TypeError (''undefined is not an object (evaluating '' @ expr @ '')'')"

definition notIterable :: "string \<Rightarrow> error" where
  "notIterable expr = TypeError (expr @ '' is not iterable'')"

section \<open>providers/registry.ts\<close>

definition ProviderType_values :: "string list" where
  "ProviderType_values = [''openai'']"

fun join :: "string \<Rightarrow> string list \<Rightarrow> string" where
  "join sep [] = []"
| "join sep [x] = x"
| "join sep (x # y # ys) = x @ sep @ join sep (y # ys)"

definition register :: "string \<Rightarrow> providerFactory \<Rightarrow> world \<Rightarrow> world" where
  "register type factory w = w\<lparr>factories := AList.update type factory (factories w)\<rparr>"

definition notRegisteredMessage :: "string \<Rightarrow> string list \<Rightarrow> string" where
  \<open>notRegisteredMessage type registered =
     ''Provider type "'' @ type @ ''" is not registered. Available types: ''
       @ join '', '' registered\<close>

text \<open>\<open>Inl\<close> is the exception \<^verbatim>\<open>createClient\<close> throws.\<close>

definition createClient ::
  "(string \<times> providerFactory) list \<Rightarrow> string \<Rightarrow> providerConfig \<Rightarrow> error + client" where
  "createClient fs name cfg =
     (let type = provider_type cfg in
      case map_of fs type of
        None \<Rightarrow> Inl (Error (notRegisteredMessage type (map fst fs)))
      | Some factory \<Rightarrow>
          if type \<notin> set ProviderType_values
          then Inl (Error (''Invalid provider type: '' @ type))
          else Inr (factory name cfg))"

section \<open>providers/manager.ts\<close>

definition modelAlias :: "string \<Rightarrow> string \<Rightarrow> string" where
  "modelAlias providerName modelId = providerName @ ''/'' @ modelId"

definition registerModels ::
  "string \<Rightarrow> modelInfo list \<Rightarrow> (string \<times> string) list \<Rightarrow> (string \<times> string) list" where
  "registerModels providerName models tbl =
     fold (\<lambda>model t. AList.update (modelAlias providerName (model_id model)) providerName t)
       models tbl"

definition removeModels :: "string \<Rightarrow> (string \<times> string) list \<Rightarrow> (string \<times> string) list" where
  "removeModels providerName tbl =
     (let aliasesToRemove = map fst (filter (\<lambda>entry. snd entry = providerName) tbl)
      in fold AList.delete aliasesToRemove tbl)"

definition getClient :: "world \<Rightarrow> string \<Rightarrow> client option" where
  "getClient w name = map_of (clients w) name"

definition getModelAliasesMapping :: "world \<Rightarrow> (string \<times> string) list" where
  "getModelAliasesMapping w = modelAliasesMapping w"

definition providerNotFoundMessage :: "string \<Rightarrow> string" where
  \<open>providerNotFoundMessage name = ''Provider "'' @ name @ ''" not found''\<close>

definition initFailedMessage :: "string \<Rightarrow> string \<Rightarrow> string" where
  \<open>initFailedMessage name msg = ''Failed to initialize provider "'' @ name @ ''": '' @ msg\<close>

text \<open>
  The loop of \<^verbatim>\<open>initializeProviders\<close> over \<^verbatim>\<open>Object.entries(allProviders)\<close>. \<open>Inl\<close> is
  an exception leaving the method: the one \<^verbatim>\<open>createClient\<close> throws (no \<^verbatim>\<open>try\<close>
  surrounds the call), or the \<^verbatim>\<open>TypeError\<close> of \<^verbatim>\<open>for (const model of models)\<close> in
  \<^verbatim>\<open>registerModels\<close> when \<^verbatim>\<open>models\<close> is an \<^verbatim>\<open>Error\<close> object (\<^verbatim>\<open>applyFilter\<close>
  hands such a value back unchanged, from its early return or from its \<^verbatim>\<open>catch\<close>).
\<close>

fun initLoop ::
  "(string \<times> providerConfig) list \<Rightarrow> world \<Rightarrow> (error + unit result) \<times> world" where
  "initLoop [] w = (Inr (Result Null None), w)"
| "initLoop ((name, providerConfig) # rest) w =
     (if \<not> enabled providerConfig then initLoop rest w
      else
        (case createClient (factories w) name providerConfig of
           Inl e \<Rightarrow> (Inl e, w)
         | Inr client \<Rightarrow>
             (let validation = client_create client (trace w);
                  w1 = logCall (CreateCall (getName client)) w
              in (case err validation of
                    Some e \<Rightarrow>
                      (Inr (Result (ErrObj (Error (initFailedMessage name (message e)))) None), w1)
                  | None \<Rightarrow>
                      (let fetched = client_models client (trace w1);
                           w2 = logCall (ModelsCall (getName client)) w1
                       in if truthy (data fetched) \<and> err fetched = None then
                            (case data fetched of
                               Data models \<Rightarrow>
                                 (let filteredModels = applyFilter (globalConfig w2) name models;
                                      w3 = w2\<lparr>modelAliasesMapping :=
                                             registerModels name filteredModels
                                               (modelAliasesMapping w2)\<rparr>
                                  in initLoop rest
                                       (w3\<lparr>clients := AList.update name client (clients w3)\<rparr>))
                             | ErrObj e \<Rightarrow> (Inl (notIterable ''models''), w2)
                             | Null \<Rightarrow>
                                 initLoop rest
                                   (w2\<lparr>clients := AList.update name client (clients w2)\<rparr>))
                          else initLoop rest
                                 (w2\<lparr>clients := AList.update name client (clients w2)\<rparr>))))))"

definition initializeProviders ::
  "(string \<times> providerConfig) list option \<Rightarrow> world \<Rightarrow> (error + unit result) \<times> world" where
  "initializeProviders ps w = initLoop (case ps of None \<Rightarrow> [] | Some allProviders \<Rightarrow> allProviders) w"

text \<open>
  \<^verbatim>\<open>refreshModels\<close> has one suspension point, \<^verbatim>\<open>await client.refreshModels()\<close>. The
  part before it ends either with the method's result or suspended on the issued fetch;
  the part after it continues from the world found at resumption with the fetch's answer.
\<close>

datatype refreshing = Finished "modelInfo list result" world | Suspended client world

definition refreshModels_begin :: "string \<Rightarrow> world \<Rightarrow> refreshing" where
  "refreshModels_begin name w =
     (case map_of (clients w) name of
        None \<Rightarrow> Finished (Result (ErrObj (Error (providerNotFoundMessage name))) None) w
      | Some client \<Rightarrow>
          Suspended client
            (logCall (RefreshModelsCall (getName client))
               (w\<lparr>modelAliasesMapping := removeModels name (modelAliasesMapping w)\<rparr>)))"

definition refreshModels_resume ::
  "string \<Rightarrow> modelInfo list result \<Rightarrow> world \<Rightarrow> (error + modelInfo list result) \<times> world" where
  "refreshModels_resume name fetched w =
     (if err fetched \<noteq> None \<or> \<not> truthy (data fetched) then
        (Inr (Result (ErrObj (case err fetched of
                                Some e \<Rightarrow> e
                              | None \<Rightarrow> Error ''Failed to refresh models'')) None), w)
      else
        case data fetched of
          Data models \<Rightarrow>
            let originalCount = length models;
                filteredModels = applyFilter (globalConfig w) name models;
                finalResult = (if length filteredModels \<noteq> originalCount
                               then Result (Data filteredModels) None
                               else Result (Data models) None)
            in (Inr finalResult,
                w\<lparr>modelAliasesMapping := registerModels name filteredModels (modelAliasesMapping w)\<rparr>)
        | ErrObj e \<Rightarrow> (Inl (notIterable ''models''), w)
        | Null \<Rightarrow> (Inr (Result (ErrObj (Error ''Failed to refresh models'')) None), w))"

text \<open>The method run without any other task scheduled during the fetch.\<close>

definition refreshModels ::
  "string \<Rightarrow> world \<Rightarrow> (error + modelInfo list result) \<times> world" where
  "refreshModels name w =
     (case refreshModels_begin name w of
        Finished r w' \<Rightarrow> (Inr r, w')
      | Suspended client w1 \<Rightarrow>
          refreshModels_resume name (client_refreshModels client (trace w)) w1)"

definition destroyProvider :: "string \<Rightarrow> world \<Rightarrow> unit result \<times> world" where
  "destroyProvider name w =
     (if map_of (clients w) name = None
      then (Result (ErrObj (Error (providerNotFoundMessage name))) None, w)
      else (Result Null None,
            w\<lparr>modelAliasesMapping := removeModels name (modelAliasesMapping w),
              clients := AList.delete name (clients w)\<rparr>))"

text \<open>The aliases a provider holds: the keys of the entries whose value is its name.\<close>

definition aliasesOf :: "string \<Rightarrow> (string \<times> string) list \<Rightarrow> string list" where
  "aliasesOf providerName tbl = map fst (filter (\<lambda>entry. snd entry = providerName) tbl)"

text \<open>
  The alias table a reader finds when it is scheduled while \<^verbatim>\<open>refreshModels(name)\<close>
  waits for its fetch (\<open>None\<close> when the method never gets to the fetch).
\<close>

definition tableDuringFetch :: "string \<Rightarrow> world \<Rightarrow> (string \<times> string) list option" where
  "tableDuringFetch name w =
     (case refreshModels_begin name w of
        Suspended c w1 \<Rightarrow> Some (getModelAliasesMapping w1)
      | Finished r w' \<Rightarrow> None)"

section \<open>providers/router.ts\<close>

definition aliasNotFoundMessage :: "string \<Rightarrow> string" where
  \<open>aliasNotFoundMessage alias =
     ''ModelAlias "'' @ alias @ ''" not found or provider not available''\<close>

definition Router_models :: "world \<Rightarrow> modelInfo list result" where
  "Router_models w =
     Result (Data (map (\<lambda>alias. \<lparr>model_id = alias, created = None, owned_by = None\<rparr>)
                     (map fst (getModelAliasesMapping w)))) None"

text \<open>\<^verbatim>\<open>modelAlias.startsWith(modelPrefix) ? modelAlias.slice(modelPrefix.length) : modelAlias\<close>\<close>

definition trimPrefix :: "string \<Rightarrow> string \<Rightarrow> string" where
  "trimPrefix providerName alias =
     (let modelPrefix = providerName @ ''/''
      in if prefix modelPrefix alias then drop (length modelPrefix) alias else alias)"

text \<open>
  \<^verbatim>\<open>!providerName\<close> holds for \<^verbatim>\<open>undefined\<close> (no entry) and for the empty string.
\<close>

definition Router_completion :: "request \<Rightarrow> world \<Rightarrow> response result \<times> world" where
  "Router_completion req w0 =
     (let w = logCall (RouterCall req) w0;
          alias = model req
      in (case map_of (getModelAliasesMapping w) alias of
            None \<Rightarrow> (Result (ErrObj (Error (aliasNotFoundMessage alias))) None, w)
          | Some providerName \<Rightarrow>
              (if providerName = [] then
                 (Result (ErrObj (Error (aliasNotFoundMessage alias))) None, w)
               else
                 (case getClient w providerName of
                    None \<Rightarrow>
                      (Result (ErrObj (Error (providerNotFoundMessage providerName))) None, w)
                  | Some client \<Rightarrow>
                      (let providerRequest =
                             req\<lparr>model := trimPrefix providerName alias, stream := Some False\<rparr>;
                           answer = client_completion client (trace w) providerRequest;
                           w' = logCall (CompletionCall (getName client) providerRequest) w
                       in if err answer \<noteq> None \<or> \<not> truthy (data answer) then
                            (Result (ErrObj (case err answer of
                                               Some e \<Rightarrow> e
                                             | None \<Rightarrow> Error ''Completion failed'')) None, w')
                          else (Result (data answer) None, w'))))))"

section \<open>handlers/completion.ts: the retrying orchestrator\<close>

text \<open>
  The \<^verbatim>\<open>for\<close> loop of \<^verbatim>\<open>autoRetryCompletion\<close> from counter \<open>i\<close>. \<open>Inl\<close> is an
  exception leaving the function. When the payload of the router's result is an
  \<^verbatim>\<open>Error\<close> object, \<^verbatim>\<open>response.usage\<close> is \<^verbatim>\<open>undefined\<close> and reading
  \<^verbatim>\<open>completion_tokens\<close> of it throws.
\<close>

function retryLoop ::
  "int \<Rightarrow> int \<Rightarrow> request \<Rightarrow> world \<Rightarrow> (error + response result) \<times> world" where
  "retryLoop i limit req w =
     (if i \<le> limit then
        (let attempt = Router_completion req w;
             r = fst attempt;
             w' = snd attempt
         in if err r \<noteq> None \<or> \<not> truthy (data r) then retryLoop (i + 1) limit req w'
            else
              case data r of
                Data response \<Rightarrow>
                  if completion_tokens (usage response) = 0
                  then retryLoop (i + 1) limit req w'
                  else (Inr (Result (Data response) None), w')
              | ErrObj e \<Rightarrow>
                  (Inl (undefinedProperty ''response.usage.completion_tokens''), w')
              | Null \<Rightarrow> retryLoop (i + 1) limit req w')
      else (Inr (Result (ErrObj (Error ''Failed after max retries'')) None), w))"
  by pat_completeness auto
termination
  by (relation "measure (\<lambda>(i, limit, req, w). nat (limit + 1 - i))") auto

definition autoRetryCompletion :: "request \<Rightarrow> world \<Rightarrow> (error + response result) \<times> world" where
  "autoRetryCompletion req w =
     (case getConfig (globalConfig w) of
        Inl e \<Rightarrow> (Inl e, w)
      | Inr cfg \<Rightarrow> retryLoop 1 (maxRetries cfg) req w)"

section \<open>handlers/completion.ts: the fake stream\<close>

text \<open>The objects handed to \<^verbatim>\<open>JSON.stringify\<close>; \<^verbatim>\<open>object\<close> is always \<^verbatim>\<open>"chat.completion.chunk"\<close>.\<close>

datatype delta = DeltaContent "string option" | DeltaRole string | DeltaEmpty

datatype chunkChoice = ChunkChoice int delta "string option"

datatype payload =
    Chunk string int string "chunkChoice list"
  | ErrorPayload string string

text \<open>
  What the platform supplies: \<^verbatim>\<open>JSON.stringify\<close>, and the message of the \<^verbatim>\<open>TypeError\<close>
  that \<^verbatim>\<open>controller.enqueue\<close> throws once the stream no longer accepts chunks.
\<close>

record runtime =
  stringify :: "payload \<Rightarrow> string"
  closedMessage :: string

text \<open>
  One streaming request: the temporary id and timestamp, whether the interval timer is
  armed, the two flags, whether the controller still accepts chunks, and what has been
  done to the timer and the channel so far.
\<close>

datatype event = ClearInterval | Enqueue string | Close

record session =
  tempId :: string
  tempCreated :: int
  fakeStreamTimer :: bool
  isCancelled :: bool
  isCompleted :: bool
  writable :: bool
  events :: "event list"

fun frames :: "event list \<Rightarrow> string list" where
  "frames [] = []"
| "frames (Enqueue d # es) = d # frames es"
| "frames (ClearInterval # es) = frames es"
| "frames (Close # es) = frames es"

definition sse :: "string \<Rightarrow> string" where
  "sse json = ''data: '' @ json @ ''\<newline>\<newline>''"

definition doneFrame :: string where
  "doneFrame = ''data: [DONE]\<newline>\<newline>''"

text \<open>\<^verbatim>\<open>String.prototype.includes\<close>\<close>

fun str_includes :: "string \<Rightarrow> string \<Rightarrow> bool" where
  "str_includes [] sub = (sub = [])"
| "str_includes (c # cs) sub = (prefix sub (c # cs) \<or> str_includes cs sub)"

definition controller_enqueue :: "runtime \<Rightarrow> string \<Rightarrow> session \<Rightarrow> error + session" where
  "controller_enqueue rt d s =
     (if writable s then Inr (s\<lparr>events := events s @ [Enqueue d]\<rparr>)
      else Inl (TypeError (closedMessage rt)))"

text \<open>\<^verbatim>\<open>try { controller.close() } catch (closeError) { }\<close>\<close>

definition closeQuietly :: "session \<Rightarrow> session" where
  "closeQuietly s =
     (if writable s then s\<lparr>writable := False, events := events s @ [Close]\<rparr> else s)"

text \<open>\<^verbatim>\<open>if (fakeStreamTimer) { clearInterval(fakeStreamTimer); fakeStreamTimer = null }\<close>\<close>

definition clearTimer :: "session \<Rightarrow> session" where
  "clearTimer s =
     (if fakeStreamTimer s
      then s\<lparr>fakeStreamTimer := False, events := events s @ [ClearInterval]\<rparr> else s)"

text \<open>\<open>Inl\<close> is the error \<^verbatim>\<open>safeEnqueue\<close> rethrows.\<close>

definition safeEnqueue :: "runtime \<Rightarrow> string \<Rightarrow> session \<Rightarrow> (error + bool) \<times> session" where
  "safeEnqueue rt d s =
     (if isCompleted s \<or> isCancelled s then (Inr False, s)
      else
        (case controller_enqueue rt d s of
           Inr s' \<Rightarrow> (Inr True, s')
         | Inl e \<Rightarrow>
             (case e of
                TypeError m \<Rightarrow>
                  if str_includes m ''closed'' then (Inr False, s\<lparr>isCancelled := True\<rparr>)
                  else (Inl e, s)
              | Error m \<Rightarrow> (Inl e, s))))"

definition keepAliveFrame :: "runtime \<Rightarrow> request \<Rightarrow> session \<Rightarrow> string" where
  "keepAliveFrame rt req s =
     sse (stringify rt (Chunk (tempId s) (tempCreated s) (model req)
                          [ChunkChoice 0 (DeltaContent (Some [])) None]))"

definition sendEmptyData :: "runtime \<Rightarrow> request \<Rightarrow> session \<Rightarrow> (error + unit) \<times> session" where
  "sendEmptyData rt req s =
     (if isCompleted s \<or> isCancelled s then (Inr (), clearTimer s)
      else
        (case safeEnqueue rt (keepAliveFrame rt req s) s of
           (Inl e, s') \<Rightarrow> (Inl e, s')
         | (Inr sent, s') \<Rightarrow> (Inr (), s')))"

text \<open>The \<^verbatim>\<open>cancel()\<close> callback of the stream.\<close>

definition cancel :: "session \<Rightarrow> session" where
  "cancel s = clearTimer (s\<lparr>isCancelled := True\<rparr>)"

text \<open>
  \<^verbatim>\<open>if (!isCancelled) { ... if (safeEnqueue(errorData)) { try { controller.close() } catch { } } }\<close>,
  the shape shared by the failure branch of the \<^verbatim>\<open>try\<close> block and by the
  \<^verbatim>\<open>catch\<close> block.
\<close>

definition sendError :: "runtime \<Rightarrow> string \<Rightarrow> session \<Rightarrow> (error + unit) \<times> session" where
  "sendError rt msg s =
     (if \<not> isCancelled s then
        (case safeEnqueue rt (sse (stringify rt (ErrorPayload msg ''completion_error''))) s of
           (Inl e, s') \<Rightarrow> (Inl e, s')
         | (Inr sent, s') \<Rightarrow> (Inr (), if sent then closeQuietly s' else s'))
      else (Inr (), s))"

definition roleFrames :: "runtime \<Rightarrow> response \<Rightarrow> string list" where
  "roleFrames rt resp =
     (case choices resp of
        [] \<Rightarrow> []
      | firstChoice # others \<Rightarrow>
          if role (choice_message firstChoice) \<noteq> [] then
            [sse (stringify rt
                    (Chunk (response_id resp) (response_created resp) (response_model resp)
                       [ChunkChoice (index firstChoice)
                          (DeltaRole (role (choice_message firstChoice))) None]))]
          else [])"

definition contentFrame :: "runtime \<Rightarrow> response \<Rightarrow> string" where
  "contentFrame rt resp =
     sse (stringify rt
            (Chunk (response_id resp) (response_created resp) (response_model resp)
               (map (\<lambda>c. ChunkChoice (index c) (DeltaContent (content (choice_message c))) None)
                  (choices resp))))"

definition finishFrame :: "runtime \<Rightarrow> response \<Rightarrow> string" where
  "finishFrame rt resp =
     sse (stringify rt
            (Chunk (response_id resp) (response_created resp) (response_model resp)
               (map (\<lambda>c. ChunkChoice (index c) DeltaEmpty (finish_reason c)) (choices resp))))"

text \<open>The run of \<^verbatim>\<open>if (!safeEnqueue(frame)) return;\<close> statements, one per frame.\<close>

fun sendAll :: "runtime \<Rightarrow> string list \<Rightarrow> session \<Rightarrow> (error + bool) \<times> session" where
  "sendAll rt [] s = (Inr True, s)"
| "sendAll rt (f # fs) s =
     (case safeEnqueue rt f s of
        (Inl e, s') \<Rightarrow> (Inl e, s')
      | (Inr sent, s') \<Rightarrow> if sent then sendAll rt fs s' else (Inr False, s'))"

text \<open>
  The \<^verbatim>\<open>try\<close> block from the point where \<^verbatim>\<open>await autoRetryCompletion(request)\<close> has
  delivered a result. With an \<^verbatim>\<open>Error\<close> object as payload the success log line reads
  \<^verbatim>\<open>response.usage.prompt_tokens\<close> and throws.
\<close>

definition tryBlock :: "runtime \<Rightarrow> response result \<Rightarrow> session \<Rightarrow> (error + unit) \<times> session" where
  "tryBlock rt r s0 =
     (let s = clearTimer s0
      in if err r \<noteq> None \<or> \<not> truthy (data r) then
           sendError rt (case err r of Some e \<Rightarrow> message e | None \<Rightarrow> ''Unknown error'') s
         else
           (case data r of
              Data resp \<Rightarrow>
                if isCancelled s then (Inr (), s)
                else
                  (case sendAll rt (roleFrames rt resp
                                     @ [contentFrame rt resp, finishFrame rt resp, doneFrame]) s of
                     (Inl e, s') \<Rightarrow> (Inl e, s')
                   | (Inr sent, s') \<Rightarrow>
                       if sent then (Inr (), closeQuietly (s'\<lparr>isCompleted := True\<rparr>))
                       else (Inr (), s'))
            | ErrObj e \<Rightarrow> (Inl (undefinedProperty ''response.usage.prompt_tokens''), s)
            | Null \<Rightarrow> sendError rt ''Unknown error'' s))"

definition catchBlock :: "runtime \<Rightarrow> error \<Rightarrow> session \<Rightarrow> (error + unit) \<times> session" where
  "catchBlock rt e s = sendError rt (message e) (clearTimer s)"

text \<open>
  \<^verbatim>\<open>start\<close> after the \<^verbatim>\<open>await\<close>: the orchestrator either threw (\<open>Inl\<close>) or returned a
  result. \<open>Inl\<close> in the answer is an exception leaving \<^verbatim>\<open>start\<close>.
\<close>

definition settle ::
  "runtime \<Rightarrow> error + response result \<Rightarrow> session \<Rightarrow> (error + unit) \<times> session" where
  "settle rt outcome s =
     (case outcome of
        Inl e \<Rightarrow> catchBlock rt e s
      | Inr r \<Rightarrow>
          (case tryBlock rt r s of
             (Inl e, s') \<Rightarrow> catchBlock rt e s'
           | (Inr u, s') \<Rightarrow> (Inr u, s')))"

text \<open>
  What can happen to a session while and after the orchestrator runs: the interval fires
  (only while the timer is armed), the orchestrator settles, or the consumer cancels the
  stream (the stream stops accepting chunks and calls \<^verbatim>\<open>cancel()\<close>).
\<close>

datatype stimulus = Tick | Settled "error + response result" | ConsumerCancel

definition step :: "runtime \<Rightarrow> request \<Rightarrow> stimulus \<Rightarrow> session \<Rightarrow> session" where
  "step rt req stim s =
     (case stim of
        Tick \<Rightarrow> if fakeStreamTimer s then snd (sendEmptyData rt req s) else s
      | Settled outcome \<Rightarrow> snd (settle rt outcome s)
      | ConsumerCancel \<Rightarrow> cancel (s\<lparr>writable := False\<rparr>))"

definition run :: "runtime \<Rightarrow> request \<Rightarrow> stimulus list \<Rightarrow> session \<Rightarrow> session" where
  "run rt req stims s = fold (step rt req) stims s"

section \<open>Map objects and their identity\<close>

text \<open>
  For the question which object a caller holds, the \<^verbatim>\<open>Map\<close> objects live in a store:
  the address of an object is its position, \<^verbatim>\<open>new Map(entries)\<close> allocates the next
  address, and a method of the manager edits the object at the address kept in
  \<^verbatim>\<open>this.modelAliasesMapping\<close>.
\<close>

type_synonym store = "(string \<times> string) list list"

definition new_Map :: "(string \<times> string) list \<Rightarrow> store \<Rightarrow> nat \<times> store" where
  "new_Map entries h = (length h, h @ [entries])"

text \<open>\<^verbatim>\<open>return new Map(this.modelAliasesMapping)\<close>\<close>

definition getModelAliasesMapping_obj :: "nat \<Rightarrow> store \<Rightarrow> nat \<times> store" where
  "getModelAliasesMapping_obj this h = new_Map (h ! this) h"

text \<open>
  The mutating methods. \<^verbatim>\<open>destroyProvider\<close> edits the table only when the provider has
  a client, which the flag records.
\<close>

datatype mutation =
    RegisterModels string "modelInfo list"
  | RemoveModels string
  | DestroyProvider string bool

definition mutate :: "nat \<Rightarrow> mutation \<Rightarrow> store \<Rightarrow> store" where
  "mutate this m h =
     h[this := (case m of
                  RegisterModels name models \<Rightarrow> registerModels name models (h ! this)
                | RemoveModels name \<Rightarrow> removeModels name (h ! this)
                | DestroyProvider name registered \<Rightarrow>
                    if registered then removeModels name (h ! this) else h ! this)]"

section \<open>Measuring a log, and sample inputs\<close>

fun routerCalls :: "call list \<Rightarrow> nat" where
  "routerCalls [] = 0"
| "routerCalls (RouterCall r # cs) = Suc (routerCalls cs)"
| "routerCalls (c # cs) = routerCalls cs"

fun completionCalls :: "call list \<Rightarrow> nat" where
  "completionCalls [] = 0"
| "completionCalls (CompletionCall n r # cs) = Suc (completionCalls cs)"
| "completionCalls (c # cs) = completionCalls cs"

definition sampleResponse :: response where
  "sampleResponse =
     \<lparr>response_id = ''chatcmpl-1'', response_created = 1700000000, response_model = ''gpt'',
      choices = [\<lparr>index = 0,
                  choice_message = \<lparr>role = ''assistant'', content = Some ''hello''\<rparr>,
                  finish_reason = Some ''stop''\<rparr>],
      usage = \<lparr>prompt_tokens = 1, completion_tokens = 1, total_tokens = 2\<rparr>\<rparr>"

definition sampleRequest :: request where
  "sampleRequest =
     \<lparr>model = ''acme/gpt'', messages = [\<lparr>role = ''user'', content = Some ''hi''\<rparr>],
      stream = Some True, params = []\<rparr>"

definition sampleModels :: "modelInfo list" where
  "sampleModels =
     [\<lparr>model_id = ''gpt'', created = None, owned_by = None\<rparr>,
      \<lparr>model_id = ''gpt-4'', created = None, owned_by = None\<rparr>]"

text \<open>
  A client named \<open>name\<close> whose \<open>k\<close>-th completion call is answered by the \<open>k\<close>-th
  entry of \<open>script\<close> and every later one by \<open>final\<close>; both model-list methods answer
  \<open>fetched\<close>.
\<close>

definition scriptedClient ::
  "string \<Rightarrow> response result list \<Rightarrow> response result \<Rightarrow> modelInfo list result \<Rightarrow> client" where
  "scriptedClient name script final fetched =
     \<lparr>getName = name,
      client_create = (\<lambda>log. Result Null None),
      client_completion =
        (\<lambda>log req. let k = completionCalls log in if k < length script then script ! k else final),
      client_models = (\<lambda>log. fetched),
      client_refreshModels = (\<lambda>log. fetched)\<rparr>"

text \<open>
  A completion that fails once, the failure built as \<^verbatim>\<open>OpenAIProviderClient.completion\<close>
  builds it (\<^verbatim>\<open>Result<ChatCompletionsResponse>(new Error(...))\<close>), and then succeeds.
\<close>

definition flakyClient :: client where
  "flakyClient =
     scriptedClient ''acme'' [Result (ErrObj (Error ''OpenAI API error: 503 - busy'')) None]
       (Result (Data sampleResponse) None) (Result (Data sampleModels) None)"

definition steadyClient :: client where
  "steadyClient =
     scriptedClient ''acme'' [] (Result (Data sampleResponse) None) (Result (Data sampleModels) None)"

definition emptyClient :: client where
  "emptyClient =
     scriptedClient ''acme'' []
       (Result (Data (sampleResponse\<lparr>usage :=
                        \<lparr>prompt_tokens = 1, completion_tokens = 0, total_tokens = 1\<rparr>\<rparr>)) None)
       (Result (Data sampleModels) None)"

definition failingClient :: client where
  "failingClient =
     scriptedClient ''acme'' [] (Result (Data sampleResponse) None)
       \<lparr>data = Null, err = Some (Error ''OpenAI API error: 401 - denied'')\<rparr>"

text \<open>
  A model-list fetch that fails, the failure built as \<^verbatim>\<open>OpenAIProviderClient.fetchModels\<close>
  builds it (\<^verbatim>\<open>Result<ModelsList>(new Error(...))\<close>) and as
  \<^verbatim>\<open>OpenAIProviderClient.refreshModels\<close> passes it on.
\<close>

definition brokenFetchClient :: client where
  "brokenFetchClient =
     scriptedClient ''acme'' [] (Result (Data sampleResponse) None)
       (Result (ErrObj (Error ''OpenAI API error: 401 - denied'')) None)"

definition sampleConfig :: config where
  "sampleConfig = \<lparr>providers = None, maxRetries = 3, fakeStreamInterval = 500\<rparr>"

definition acmeWorld :: "client \<Rightarrow> world" where
  "acmeWorld c =
     \<lparr>globalConfig = Some sampleConfig,
      factories = [],
      clients = [(''acme'', c)],
      modelAliasesMapping = [(''acme/gpt'', ''acme'')],
      trace = []\<rparr>"

text \<open>An alias entry left without its client.\<close>

definition orphanWorld :: world where
  "orphanWorld =
     \<lparr>globalConfig = Some sampleConfig, factories = [], clients = [],
      modelAliasesMapping = [(''acme/gpt'', ''acme'')], trace = []\<rparr>"

definition openaiConfig :: providerConfig where
  "openaiConfig =
     \<lparr>enabled = True, provider_type = ''openai'', endpoint = ''https://api.example/v1'',
      api_key = ''sk-1'', filter_cfg = None\<rparr>"

definition emptyWorld :: world where
  "emptyWorld =
     \<lparr>globalConfig = Some sampleConfig, factories = [], clients = [],
      modelAliasesMapping = [], trace = []\<rparr>"

text \<open>
  A start-up at which the provider's model-list request fails. The factory builds a
  client that behaves as \<^verbatim>\<open>OpenAIProviderClient\<close> then does: \<^verbatim>\<open>create()\<close> does not
  see the failure of \<^verbatim>\<open>fetchModels\<close> (its \<^verbatim>\<open>err\<close> is \<^verbatim>\<open>null\<close>), caches the
  \<^verbatim>\<open>Error\<close> object as the model list and answers \<^verbatim>\<open>Result<void>(undefined)\<close>;
  \<^verbatim>\<open>models()\<close> answers with the cached object.
\<close>

definition brokenFactory :: providerFactory where
  "brokenFactory name cfg =
     scriptedClient name [] (Result (Data sampleResponse) None)
       (Result (ErrObj (Error ''OpenAI API error: 401 - denied'')) None)"

definition startupWorld :: world where
  "startupWorld =
     \<lparr>globalConfig = Some (sampleConfig\<lparr>providers := Some [(''acme'', openaiConfig)]\<rparr>),
      factories = [(''openai'', brokenFactory)], clients = [],
      modelAliasesMapping = [], trace = []\<rparr>"

text \<open>A rendering that keeps the frames of a sample apart; any function would do.\<close>

fun sampleStringify :: "payload \<Rightarrow> string" where
  "sampleStringify (Chunk i c m [ChunkChoice k (DeltaRole r) f]) = i @ '':role:'' @ r"
| "sampleStringify (Chunk i c m [ChunkChoice k (DeltaContent (Some t)) f]) = i @ '':content:'' @ t"
| "sampleStringify (Chunk i c m [ChunkChoice k DeltaEmpty (Some f)]) = i @ '':finish:'' @ f"
| "sampleStringify (Chunk i c m cs) = i"
| "sampleStringify (ErrorPayload msg t) = t @ '':'' @ msg"

definition sampleRuntime :: runtime where
  "sampleRuntime =
     \<lparr>stringify = sampleStringify, closedMessage = ''Invalid state: Controller is already closed''\<rparr>"

definition sampleSession :: session where
  "sampleSession =
     \<lparr>tempId = ''chatcmpl-1700000000000'', tempCreated = 1700000000, fakeStreamTimer = True,
      isCancelled = False, isCompleted = False, writable = True, events = []\<rparr>"

section \<open>Filter semantics\<close>

text \<open>
  C4. Whitelisting keeps exactly the models whose id is in \<open>S\<close> and blacklisting exactly
  those whose id is not in \<open>S\<close>, both in upstream order (each is the upstream list with
  the other models dropped). The two results share no model and together hold every
  upstream model with its multiplicity. \<open>applyFilter\<close> hands the list back unchanged when
  no filter is configured for the provider, and is otherwise the whitelist or the
  blacklist of the configured ids, by the configured mode.
\<close>

theorem filter_semantics:
  "FilterUtil_whitelist ms S = filter (\<lambda>m. model_id m \<in> S) ms
   \<and> FilterUtil_blacklist ms S = filter (\<lambda>m. model_id m \<notin> S) ms
   \<and> subseq (FilterUtil_whitelist ms S) ms
   \<and> subseq (FilterUtil_blacklist ms S) ms
   \<and> set (FilterUtil_whitelist ms S) \<inter> set (FilterUtil_blacklist ms S) = {}
   \<and> mset (FilterUtil_whitelist ms S) + mset (FilterUtil_blacklist ms S) = mset ms
   \<and> FilterUtil_apply ms S Whitelist = FilterUtil_whitelist ms S
   \<and> FilterUtil_apply ms S Blacklist = FilterUtil_blacklist ms S
   \<and> applyFilter gc name ms
       = (case configuredFilter gc name of
            None \<Rightarrow> ms
          | Some f \<Rightarrow>
              (case filter_mode f of
                 Whitelist \<Rightarrow> FilterUtil_whitelist ms (set (filter_models f))
               | Blacklist \<Rightarrow> FilterUtil_blacklist ms (set (filter_models f))))"
  by (auto simp: FilterUtil_whitelist_def FilterUtil_blacklist_def FilterUtil_apply_def
      applyFilter_def getConfig_def configuredFilter_def
      split: option.splits filter_mode.splits)

theorem filter_semantics_witness:
  "FilterUtil_whitelist sampleModels {''gpt''}
     = [\<lparr>model_id = ''gpt'', created = None, owned_by = None\<rparr>]
   \<and> FilterUtil_blacklist sampleModels {''gpt''}
     = [\<lparr>model_id = ''gpt-4'', created = None, owned_by = None\<rparr>]
   \<and> mset (FilterUtil_whitelist sampleModels {''gpt''})
       + mset (FilterUtil_blacklist sampleModels {''gpt''}) = mset sampleModels
   \<and> applyFilter (Some sampleConfig) ''acme'' sampleModels = sampleModels"
proof -
  have c: "configuredFilter (Some sampleConfig) ''acme'' = None"
    by (simp add: configuredFilter_def getProviderConfig_def sampleConfig_def)
  show ?thesis
    using filter_semantics[of sampleModels "{''gpt''}" "Some sampleConfig" "''acme''"] c
    by (simp add: sampleModels_def)
qed

section \<open>Routing\<close>

lemma Router_completion_err_None: "err (fst (Router_completion req w)) = None"
  by (simp add: Router_completion_def Result_def createResult_def Let_def
      split: option.splits)

lemma trimPrefix_cases:
  "(prefix (p @ ''/'') a \<longrightarrow> p @ ''/'' @ trimPrefix p a = a)
   \<and> (\<not> prefix (p @ ''/'') a \<longrightarrow> trimPrefix p a = a)"
  by (auto simp: trimPrefix_def Let_def prefix_def)

lemma completionCalls_RouterCall:
  "completionCalls (cs @ [RouterCall req]) = completionCalls cs"
  by (induction cs rule: completionCalls.induct) simp_all

text \<open>
  C2. Let the alias in the request's \<open>model\<close> field resolve in the Router: the alias
  table yields a provider name \<open>p\<close> that is not the empty string (the Router's
  \<^verbatim>\<open>!providerName\<close> test treats the empty string like a missing entry), and the client
  map holds a client \<open>c\<close> for \<open>p\<close>. Then the Router calls \<open>c\<close> exactly once, with the
  request \<open>fwd\<close> that is the caller's request with \<open>stream\<close> set to \<open>false\<close> (whatever the
  caller sent) and \<open>model\<close> set to the alias without its leading \<open>p/\<close>, or to the whole
  alias when it does not start with \<open>p/\<close>; the other fields are the caller's. The
  Router's own answer is computed from what \<open>c\<close> answered to \<open>fwd\<close>.
\<close>

theorem router_forwards:
  assumes "map_of (getModelAliasesMapping w) (model req) = Some p"
    and "p \<noteq> []"
    and "getClient w p = Some c"
  shows "trace (snd (Router_completion req w))
           = trace w @ [RouterCall req,
                        CompletionCall (getName c)
                          (req\<lparr>model := trimPrefix p (model req), stream := Some False\<rparr>)]
         \<and> fst (Router_completion req w)
           = (let answer = client_completion c (trace w @ [RouterCall req])
                             (req\<lparr>model := trimPrefix p (model req), stream := Some False\<rparr>)
              in if err answer \<noteq> None \<or> data answer = Null
                 then Result (ErrObj (case err answer of
                                        Some e \<Rightarrow> e
                                      | None \<Rightarrow> Error ''Completion failed'')) None
                 else Result (data answer) None)
         \<and> stream (req\<lparr>model := trimPrefix p (model req), stream := Some False\<rparr>) = Some False
         \<and> (if prefix (p @ ''/'') (model req)
            then p @ ''/'' @ trimPrefix p (model req) = model req
            else trimPrefix p (model req) = model req)
         \<and> messages (req\<lparr>model := trimPrefix p (model req), stream := Some False\<rparr>) = messages req
         \<and> params (req\<lparr>model := trimPrefix p (model req), stream := Some False\<rparr>) = params req"
  using assms trimPrefix_cases[of p "model req"]
  by (simp add: Router_completion_def Let_def logCall_def getClient_def
      getModelAliasesMapping_def truthy_def)

theorem router_forwards_witness:
  "map_of (getModelAliasesMapping (acmeWorld steadyClient)) (model sampleRequest) = Some ''acme''
   \<and> getClient (acmeWorld steadyClient) ''acme'' = Some steadyClient
   \<and> stream sampleRequest = Some True
   \<and> trace (snd (Router_completion sampleRequest (acmeWorld steadyClient)))
       = [RouterCall sampleRequest,
          CompletionCall ''acme'' (sampleRequest\<lparr>model := ''gpt'', stream := Some False\<rparr>)]"
proof -
  have a: "map_of (getModelAliasesMapping (acmeWorld steadyClient)) (model sampleRequest)
             = Some ''acme''"
    by (simp add: getModelAliasesMapping_def acmeWorld_def sampleRequest_def)
  have b: "''acme'' \<noteq> []" by simp
  have c: "getClient (acmeWorld steadyClient) ''acme'' = Some steadyClient"
    by (simp add: getClient_def acmeWorld_def)
  have d: "trimPrefix ''acme'' (model sampleRequest) = ''gpt''"
    by (simp add: trimPrefix_def sampleRequest_def)
  have e: "getName steadyClient = ''acme''"
    by (simp add: steadyClient_def scriptedClient_def)
  have f: "trace (acmeWorld steadyClient) = []" by (simp add: acmeWorld_def)
  have g: "stream sampleRequest = Some True" by (simp add: sampleRequest_def)
  show ?thesis using router_forwards[OF a b c] a c d e f g by simp
qed

text \<open>
  The two refusals of the Router. When the alias is absent from the alias table, the
  Router answers with the \<^verbatim>\<open>Result\<close> built from the error
  \<^verbatim>\<open>ModelAlias "..." not found or provider not available\<close>; when the alias maps to a
  non-empty provider name whose client is absent from the client map, with the
  \<^verbatim>\<open>Result\<close> built from \<^verbatim>\<open>Provider "..." not found\<close>. In both cases the only
  change to the world is the log entry of the Router call itself: no client's
  \<open>completion\<close> is invoked.
\<close>

lemma router_unresolved:
  "(map_of (getModelAliasesMapping w) (model req) = None \<longrightarrow>
      Router_completion req w
        = (Result (ErrObj (Error (aliasNotFoundMessage (model req)))) None,
           logCall (RouterCall req) w))
   \<and> (map_of (getModelAliasesMapping w) (model req) = Some p \<and> p \<noteq> [] \<and> getClient w p = None \<longrightarrow>
      Router_completion req w
        = (Result (ErrObj (Error (providerNotFoundMessage p))) None,
           logCall (RouterCall req) w))
   \<and> completionCalls (trace (logCall (RouterCall req) w)) = completionCalls (trace w)"
  by (simp add: Router_completion_def Let_def logCall_def getClient_def
      getModelAliasesMapping_def completionCalls_RouterCall)

lemma router_unresolved_examples:
  "map_of (getModelAliasesMapping (acmeWorld steadyClient)) ''ghost/foo'' = None
   \<and> Router_completion (sampleRequest\<lparr>model := ''ghost/foo''\<rparr>) (acmeWorld steadyClient)
       = (Result (ErrObj (Error (aliasNotFoundMessage ''ghost/foo''))) None,
          logCall (RouterCall (sampleRequest\<lparr>model := ''ghost/foo''\<rparr>)) (acmeWorld steadyClient))
   \<and> map_of (getModelAliasesMapping orphanWorld) ''acme/gpt'' = Some ''acme''
   \<and> getClient orphanWorld ''acme'' = None
   \<and> Router_completion sampleRequest orphanWorld
       = (Result (ErrObj (Error (providerNotFoundMessage ''acme''))) None,
          logCall (RouterCall sampleRequest) orphanWorld)"
proof -
  have a: "map_of (getModelAliasesMapping (acmeWorld steadyClient))
             (model (sampleRequest\<lparr>model := ''ghost/foo''\<rparr>)) = None"
    by (simp add: getModelAliasesMapping_def acmeWorld_def)
  have b: "map_of (getModelAliasesMapping orphanWorld) (model sampleRequest) = Some ''acme''
           \<and> ''acme'' \<noteq> [] \<and> getClient orphanWorld ''acme'' = None"
    by (simp add: getModelAliasesMapping_def orphanWorld_def sampleRequest_def getClient_def)
  have m: "model sampleRequest = ''acme/gpt''" by (simp add: sampleRequest_def)
  show ?thesis
    using router_unresolved[of "acmeWorld steadyClient"
                               "sampleRequest\<lparr>model := ''ghost/foo''\<rparr>" "''acme''"]
      router_unresolved[of orphanWorld sampleRequest "''acme''"] a b m
    by simp
qed

text \<open>
  C5 at the request for \<^verbatim>\<open>ghost/foo\<close>, an alias that is not in the table, and at a
  request whose alias is in the table while its provider has no client. As the claim
  says, no client is invoked and the answer carries the alias-not-found error,
  respectively the provider-not-found error. But the answer is not an error: it is
  built by \<^verbatim>\<open>Result<T>(new Error(...))\<close>, so its \<^verbatim>\<open>err\<close> is \<^verbatim>\<open>null\<close>,
  \<^verbatim>\<open>isErr()\<close> is false and the \<^verbatim>\<open>Error\<close> object sits where a response is
  expected; the orchestrator, given the unknown alias, throws a \<^verbatim>\<open>TypeError\<close> on it.
\<close>

theorem router_unknown_alias_result_is_not_an_error:
  "map_of (getModelAliasesMapping (acmeWorld steadyClient)) ''ghost/foo'' = None
   \<and> data (fst (Router_completion (sampleRequest\<lparr>model := ''ghost/foo''\<rparr>) (acmeWorld steadyClient)))
       = ErrObj (Error (aliasNotFoundMessage ''ghost/foo''))
   \<and> err (fst (Router_completion (sampleRequest\<lparr>model := ''ghost/foo''\<rparr>) (acmeWorld steadyClient)))
       = None
   \<and> isErr (fst (Router_completion (sampleRequest\<lparr>model := ''ghost/foo''\<rparr>)
                    (acmeWorld steadyClient))) = False
   \<and> completionCalls (trace (snd (Router_completion (sampleRequest\<lparr>model := ''ghost/foo''\<rparr>)
                                     (acmeWorld steadyClient)))) = 0
   \<and> fst (autoRetryCompletion (sampleRequest\<lparr>model := ''ghost/foo''\<rparr>) (acmeWorld steadyClient))
       = Inl (undefinedProperty ''response.usage.completion_tokens'')
   \<and> map_of (getModelAliasesMapping orphanWorld) ''acme/gpt'' = Some ''acme''
   \<and> data (fst (Router_completion sampleRequest orphanWorld))
       = ErrObj (Error (providerNotFoundMessage ''acme''))
   \<and> isErr (fst (Router_completion sampleRequest orphanWorld)) = False
   \<and> completionCalls (trace (snd (Router_completion sampleRequest orphanWorld))) = 0"
  by code_simp

theorem router_unknown_alias_result_is_not_an_error_witness:
  "isOk (fst (Router_completion (sampleRequest\<lparr>model := ''ghost/foo''\<rparr>) (acmeWorld steadyClient)))
   \<and> fst (autoRetryCompletion (sampleRequest\<lparr>model := ''ghost/foo''\<rparr>) (acmeWorld steadyClient))
       \<noteq> Inr (Result (ErrObj (Error (aliasNotFoundMessage ''ghost/foo''))) None)"
  using router_unknown_alias_result_is_not_an_error by (simp add: isOk_def)

section \<open>The alias table under registration and removal\<close>

lemma fold_delete_filter:
  "fold AList.delete ks tbl = filter (\<lambda>entry. fst entry \<notin> set ks) tbl"
proof (induction ks arbitrary: tbl)
  case Nil
  then show ?case by simp
next
  case (Cons k ks)
  have "AList.delete k tbl = filter (\<lambda>entry. fst entry \<noteq> k) tbl"
    by (simp add: AList.delete_eq case_prod_unfold eq_commute[of k])
  with Cons show ?case by (simp add: conj_commute)
qed

lemma removeModels_filter:
  "removeModels name tbl
     = filter (\<lambda>entry. fst entry \<notin> set (aliasesOf name tbl)) tbl"
  by (simp add: removeModels_def aliasesOf_def fold_delete_filter)

lemma aliasesOf_removeModels: "aliasesOf name (removeModels name tbl) = []"
proof -
  have "\<And>e. e \<in> set tbl \<Longrightarrow> snd e = name \<Longrightarrow> fst e \<in> set (aliasesOf name tbl)"
    by (auto simp: aliasesOf_def)
  then show ?thesis
    unfolding removeModels_filter
    by (auto simp: aliasesOf_def filter_empty_conv)
qed

lemma removeModels_distinct:
  assumes "distinct (map fst tbl)"
  shows "removeModels name tbl = filter (\<lambda>entry. snd entry \<noteq> name) tbl"
proof -
  have "fst e \<in> set (aliasesOf name tbl) \<longleftrightarrow> snd e = name" if "e \<in> set tbl" for e
  proof
    assume "fst e \<in> set (aliasesOf name tbl)"
    then obtain e' where e': "e' \<in> set tbl" "snd e' = name" "fst e' = fst e"
      by (auto simp: aliasesOf_def)
    with assms that have "e' = e"
      by (metis eq_key_imp_eq_value prod.collapse)
    with e' show "snd e = name" by simp
  next
    assume "snd e = name"
    with that show "fst e \<in> set (aliasesOf name tbl)" by (auto simp: aliasesOf_def)
  qed
  then show ?thesis
    unfolding removeModels_filter by (auto intro: filter_cong)
qed

lemma aliasesOf_other_removeModels:
  assumes "distinct (map fst tbl)" "other \<noteq> name"
  shows "aliasesOf other (removeModels name tbl) = aliasesOf other tbl"
proof -
  have "filter (\<lambda>x. snd x \<noteq> name \<and> snd x = other) tbl = filter (\<lambda>x. snd x = other) tbl"
    using assms(2) by (intro filter_cong) auto
  then show ?thesis
    using assms(1) by (simp add: removeModels_distinct aliasesOf_def)
qed

lemma set_aliasesOf: "set (aliasesOf name tbl) = {a. (a, name) \<in> set tbl}"
  by (force simp: aliasesOf_def)

lemma in_set_update_same:
  "(a, name) \<in> set (AList.update k name tbl) \<longleftrightarrow> a = k \<or> (a, name) \<in> set tbl"
  by (induction tbl) auto

lemma aliasesOf_update:
  "set (aliasesOf name (AList.update k name tbl)) = insert k (set (aliasesOf name tbl))"
  by (auto simp: set_aliasesOf in_set_update_same)

lemma aliasesOf_registerModels:
  "set (aliasesOf name (registerModels name ms tbl))
     = set (aliasesOf name tbl) \<union> (\<lambda>m. modelAlias name (model_id m)) ` set ms"
proof (induction ms arbitrary: tbl)
  case Nil
  then show ?case by (simp add: registerModels_def)
next
  case (Cons m ms)
  have "registerModels name (m # ms) tbl
          = registerModels name ms (AList.update (modelAlias name (model_id m)) name tbl)"
    by (simp add: registerModels_def)
  then show ?case using Cons[of "AList.update (modelAlias name (model_id m)) name tbl"]
    by (auto simp: aliasesOf_update)
qed

lemma map_of_registerModels:
  "map_of (registerModels name ms tbl) k
     = (if k \<in> (\<lambda>m. modelAlias name (model_id m)) ` set ms then Some name else map_of tbl k)"
proof (induction ms arbitrary: tbl)
  case Nil
  then show ?case by (simp add: registerModels_def)
next
  case (Cons m ms)
  have "registerModels name (m # ms) tbl
          = registerModels name ms (AList.update (modelAlias name (model_id m)) name tbl)"
    by (simp add: registerModels_def)
  then show ?case using Cons[of "AList.update (modelAlias name (model_id m)) name tbl"]
    by (auto simp: update_conv')
qed

lemma distinct_registerModels:
  "distinct (map fst tbl) \<Longrightarrow> distinct (map fst (registerModels name ms tbl))"
  by (induction ms arbitrary: tbl) (simp_all add: registerModels_def distinct_update)

lemma distinct_removeModels:
  "distinct (map fst tbl) \<Longrightarrow> distinct (map fst (removeModels name tbl))"
  by (simp add: removeModels_filter distinct_map_filter)

section \<open>Refreshing a provider\<close>

lemma refreshModels_registered:
  assumes "map_of (clients w) name = Some c"
  shows "refreshModels name w
           = refreshModels_resume name (client_refreshModels c (trace w))
               (logCall (RefreshModelsCall (getName c))
                  (w\<lparr>modelAliasesMapping := removeModels name (modelAliasesMapping w)\<rparr>))"
  using assms by (simp add: refreshModels_def refreshModels_begin_def)

lemma refreshModels_resume_failure:
  assumes "err fetched \<noteq> None \<or> data fetched = Null"
  shows "refreshModels_resume name fetched w
           = (Inr (Result (ErrObj (case err fetched of
                                      Some e \<Rightarrow> e
                                    | None \<Rightarrow> Error ''Failed to refresh models'')) None), w)"
  using assms by (auto simp: refreshModels_resume_def truthy_def)

lemma refreshModels_resume_success:
  assumes "err fetched = None" "data fetched = Data ms"
  shows "snd (refreshModels_resume name fetched w)
           = w\<lparr>modelAliasesMapping :=
                 registerModels name (applyFilter (globalConfig w) name ms) (modelAliasesMapping w)\<rparr>"
    and "\<exists>r. fst (refreshModels_resume name fetched w) = Inr r"
  using assms by (auto simp: refreshModels_resume_def truthy_def Let_def)

text \<open>
  A fetch answered with an \<^verbatim>\<open>Error\<close> object as payload and no \<^verbatim>\<open>err\<close> passes the
  failure test of \<open>refreshModels\<close>; the registration then throws.
\<close>

lemma refreshModels_payload_error_throws:
  assumes "map_of (clients w) name = Some c"
    and "err (client_refreshModels c (trace w)) = None"
    and "data (client_refreshModels c (trace w)) = ErrObj e"
  shows "fst (refreshModels name w) = Inl (notIterable ''models'')"
  using assms
  by (simp add: refreshModels_registered refreshModels_resume_def truthy_def)

text \<open>
  The paths of \<open>refreshModels name\<close>. On a name without a client it answers
  with the \<^verbatim>\<open>Result\<close> built from \<^verbatim>\<open>Provider "name" not found\<close> and leaves the world
  as it was. On a registered provider the method reaches its fetch with all entries of
  that provider already removed from the alias table. If the answer of the fetch has
  \<^verbatim>\<open>err\<close> set or carries no models (the test of the code), the method answers with
  the \<^verbatim>\<open>Result\<close> built from that error, the provider keeps its client and has no
  alias, and the log shows the one fetch and nothing else. If the fetch delivers models,
  the provider's aliases afterwards are exactly \<open>name/model_id\<close> for the models that
  pass the provider's filter, and each of them maps to \<open>name\<close>.
\<close>

lemma refreshModels_behaviour:
  "(map_of (clients w) name = None \<longrightarrow>
      refreshModels name w
        = (Inr (Result (ErrObj (Error (providerNotFoundMessage name))) None), w))
   \<and> (map_of (clients w) name = Some c \<longrightarrow>
        refreshModels_begin name w
          = Suspended c (logCall (RefreshModelsCall (getName c))
                           (w\<lparr>modelAliasesMapping := removeModels name (modelAliasesMapping w)\<rparr>))
        \<and> aliasesOf name (removeModels name (modelAliasesMapping w)) = [])
   \<and> (map_of (clients w) name = Some c
        \<and> (err (client_refreshModels c (trace w)) \<noteq> None
             \<or> data (client_refreshModels c (trace w)) = Null) \<longrightarrow>
        fst (refreshModels name w)
          = Inr (Result (ErrObj (case err (client_refreshModels c (trace w)) of
                                   Some e \<Rightarrow> e
                                 | None \<Rightarrow> Error ''Failed to refresh models'')) None)
        \<and> aliasesOf name (modelAliasesMapping (snd (refreshModels name w))) = []
        \<and> clients (snd (refreshModels name w)) = clients w
        \<and> trace (snd (refreshModels name w)) = trace w @ [RefreshModelsCall (getName c)])
   \<and> (map_of (clients w) name = Some c
        \<and> err (client_refreshModels c (trace w)) = None
        \<and> data (client_refreshModels c (trace w)) = Data ms \<longrightarrow>
        set (aliasesOf name (modelAliasesMapping (snd (refreshModels name w))))
          = (\<lambda>m. modelAlias name (model_id m)) ` set (applyFilter (globalConfig w) name ms)
        \<and> list_all (\<lambda>m. map_of (modelAliasesMapping (snd (refreshModels name w)))
                            (modelAlias name (model_id m)) = Some name)
            (applyFilter (globalConfig w) name ms)
        \<and> clients (snd (refreshModels name w)) = clients w
        \<and> trace (snd (refreshModels name w)) = trace w @ [RefreshModelsCall (getName c)])"
proof (intro conjI impI)
  assume "map_of (clients w) name = None"
  then show "refreshModels name w
        = (Inr (Result (ErrObj (Error (providerNotFoundMessage name))) None), w)"
    by (simp add: refreshModels_def refreshModels_begin_def)
next
  assume "map_of (clients w) name = Some c"
  then show "refreshModels_begin name w
          = Suspended c (logCall (RefreshModelsCall (getName c))
                           (w\<lparr>modelAliasesMapping := removeModels name (modelAliasesMapping w)\<rparr>))"
    by (simp add: refreshModels_begin_def)
next
  show "aliasesOf name (removeModels name (modelAliasesMapping w)) = []"
    by (rule aliasesOf_removeModels)
next
  assume a: "map_of (clients w) name = Some c
        \<and> (err (client_refreshModels c (trace w)) \<noteq> None
             \<or> data (client_refreshModels c (trace w)) = Null)"
  then have r: "refreshModels name w
      = (Inr (Result (ErrObj (case err (client_refreshModels c (trace w)) of
                                   Some e \<Rightarrow> e
                                 | None \<Rightarrow> Error ''Failed to refresh models'')) None),
         logCall (RefreshModelsCall (getName c))
                  (w\<lparr>modelAliasesMapping := removeModels name (modelAliasesMapping w)\<rparr>))"
    by (simp add: refreshModels_registered refreshModels_resume_failure)
  show "fst (refreshModels name w)
          = Inr (Result (ErrObj (case err (client_refreshModels c (trace w)) of
                                   Some e \<Rightarrow> e
                                 | None \<Rightarrow> Error ''Failed to refresh models'')) None)"
    by (simp add: r)
  show "aliasesOf name (modelAliasesMapping (snd (refreshModels name w))) = []"
    by (simp add: r logCall_def aliasesOf_removeModels)
  show "clients (snd (refreshModels name w)) = clients w"
    by (simp add: r logCall_def)
  show "trace (snd (refreshModels name w)) = trace w @ [RefreshModelsCall (getName c)]"
    by (simp add: r logCall_def)
next
  assume a: "map_of (clients w) name = Some c
        \<and> err (client_refreshModels c (trace w)) = None
        \<and> data (client_refreshModels c (trace w)) = Data ms"
  let ?w1 = "logCall (RefreshModelsCall (getName c))
                  (w\<lparr>modelAliasesMapping := removeModels name (modelAliasesMapping w)\<rparr>)"
  let ?fs = "applyFilter (globalConfig w) name ms"
  from a have s: "snd (refreshModels name w)
      = ?w1\<lparr>modelAliasesMapping := registerModels name ?fs (modelAliasesMapping ?w1)\<rparr>"
    by (simp add: refreshModels_registered refreshModels_resume_success(1) logCall_def)
  show "set (aliasesOf name (modelAliasesMapping (snd (refreshModels name w))))
          = (\<lambda>m. modelAlias name (model_id m)) ` set ?fs"
    by (simp add: s logCall_def aliasesOf_registerModels aliasesOf_removeModels)
  show "list_all (\<lambda>m. map_of (modelAliasesMapping (snd (refreshModels name w)))
                            (modelAlias name (model_id m)) = Some name) ?fs"
    by (simp add: s logCall_def map_of_registerModels list_all_iff)
  show "clients (snd (refreshModels name w)) = clients w"
    by (simp add: s logCall_def)
  show "trace (snd (refreshModels name w)) = trace w @ [RefreshModelsCall (getName c)]"
    by (simp add: s logCall_def)
qed

lemma refreshModels_behaviour_examples:
  "map_of (clients emptyWorld) ''acme'' = None
   \<and> refreshModels ''acme'' emptyWorld
       = (Inr (Result (ErrObj (Error (providerNotFoundMessage ''acme''))) None), emptyWorld)
   \<and> map_of (clients (acmeWorld failingClient)) ''acme'' = Some failingClient
   \<and> err (client_refreshModels failingClient []) = Some (Error ''OpenAI API error: 401 - denied'')
   \<and> fst (refreshModels ''acme'' (acmeWorld failingClient))
       = Inr (Result (ErrObj (Error ''OpenAI API error: 401 - denied'')) None)
   \<and> aliasesOf ''acme'' (modelAliasesMapping (acmeWorld failingClient)) = [''acme/gpt'']
   \<and> aliasesOf ''acme'' (modelAliasesMapping (snd (refreshModels ''acme'' (acmeWorld failingClient)))) = []
   \<and> map_of (clients (acmeWorld steadyClient)) ''acme'' = Some steadyClient
   \<and> client_refreshModels steadyClient [] = Result (Data sampleModels) None
   \<and> set (aliasesOf ''acme'' (modelAliasesMapping (snd (refreshModels ''acme'' (acmeWorld steadyClient)))))
       = {''acme/gpt'', ''acme/gpt-4''}"
proof -
  have e: "map_of (clients emptyWorld) ''acme'' = None" by (simp add: emptyWorld_def)
  have f: "map_of (clients (acmeWorld failingClient)) ''acme'' = Some failingClient"
    "trace (acmeWorld failingClient) = []"
    "aliasesOf ''acme'' (modelAliasesMapping (acmeWorld failingClient)) = [''acme/gpt'']"
    by (simp_all add: acmeWorld_def aliasesOf_def)
  have ff: "client_refreshModels failingClient []
              = \<lparr>data = Null, err = Some (Error ''OpenAI API error: 401 - denied'')\<rparr>"
    by (simp add: failingClient_def scriptedClient_def)
  have s: "map_of (clients (acmeWorld steadyClient)) ''acme'' = Some steadyClient"
    "trace (acmeWorld steadyClient) = []"
    "globalConfig (acmeWorld steadyClient) = Some sampleConfig"
    by (simp_all add: acmeWorld_def)
  have sf: "client_refreshModels steadyClient [] = Result (Data sampleModels) None"
    by (simp add: steadyClient_def scriptedClient_def)
  have af: "applyFilter (Some sampleConfig) ''acme'' sampleModels = sampleModels"
    by (simp add: applyFilter_def getConfig_def getProviderConfig_def sampleConfig_def)
  have img: "(\<lambda>m. modelAlias ''acme'' (model_id m)) ` set sampleModels = {''acme/gpt'', ''acme/gpt-4''}"
    by (simp add: sampleModels_def modelAlias_def)
  show ?thesis
    using refreshModels_behaviour[of emptyWorld "''acme''" failingClient "[]"]
      refreshModels_behaviour[of "acmeWorld failingClient" "''acme''" failingClient "[]"]
      refreshModels_behaviour[of "acmeWorld steadyClient" "''acme''" steadyClient sampleModels]
      e f ff s sf af img
    by (simp add: Result_def createResult_def)
qed

text \<open>
  C7 at a registered provider whose fetch fails, the failure reported the way the
  repository's own client reports it. Before the refresh the provider holds the alias
  \<^verbatim>\<open>acme/gpt\<close>. The entries are removed and the fetch is issued once, as the claim
  says; but the answer \<^verbatim>\<open>Result<ModelsList>(new Error(...))\<close> has \<^verbatim>\<open>err = null\<close>, so
  it passes the test \<^verbatim>\<open>err || !models\<close>, and instead of returning the error the method
  throws the \<^verbatim>\<open>TypeError\<close> of \<^verbatim>\<open>for (const model of models)\<close> in \<open>registerModels\<close>.
  The provider is left with no alias.
\<close>

theorem refreshModels_failed_fetch_throws:
  "aliasesOf ''acme'' (modelAliasesMapping (acmeWorld brokenFetchClient)) = [''acme/gpt'']
   \<and> client_refreshModels brokenFetchClient (trace (acmeWorld brokenFetchClient))
       = Result (ErrObj (Error ''OpenAI API error: 401 - denied'')) None
   \<and> fst (refreshModels ''acme'' (acmeWorld brokenFetchClient)) = Inl (notIterable ''models'')
   \<and> aliasesOf ''acme''
        (modelAliasesMapping (snd (refreshModels ''acme'' (acmeWorld brokenFetchClient)))) = []
   \<and> trace (snd (refreshModels ''acme'' (acmeWorld brokenFetchClient)))
       = [RefreshModelsCall ''acme'']"
proof -
  have c: "map_of (clients (acmeWorld brokenFetchClient)) ''acme'' = Some brokenFetchClient"
    "trace (acmeWorld brokenFetchClient) = []"
    "modelAliasesMapping (acmeWorld brokenFetchClient) = [(''acme/gpt'', ''acme'')]"
    by (simp_all add: acmeWorld_def)
  have f: "client_refreshModels brokenFetchClient []
             = Result (ErrObj (Error ''OpenAI API error: 401 - denied'')) None"
    "getName brokenFetchClient = ''acme''"
    by (simp_all add: brokenFetchClient_def scriptedClient_def)
  have r: "refreshModels ''acme'' (acmeWorld brokenFetchClient)
             = (Inl (notIterable ''models''),
                logCall (RefreshModelsCall ''acme'')
                  ((acmeWorld brokenFetchClient)\<lparr>modelAliasesMapping :=
                     removeModels ''acme'' (modelAliasesMapping (acmeWorld brokenFetchClient))\<rparr>))"
    using c f
    by (simp add: refreshModels_registered refreshModels_resume_def truthy_def Result_def
        createResult_def)
  show ?thesis
    using c f by (simp add: r logCall_def aliasesOf_removeModels) (simp add: aliasesOf_def)
qed

theorem refreshModels_failed_fetch_throws_witness:
  "fst (refreshModels ''acme'' (acmeWorld brokenFetchClient))
     \<noteq> Inr (Result (ErrObj (Error ''OpenAI API error: 401 - denied'')) None)"
  using refreshModels_failed_fetch_throws by simp

section \<open>Initialising the providers\<close>

lemma initLoop_skip:
  "list_all (\<lambda>entry. \<not> enabled (snd entry)) skipped \<Longrightarrow>
   initLoop (skipped @ rest) w = initLoop rest w"
  by (induction skipped) auto

text \<open>
  What \<open>initializeProviders\<close> does at the first enabled provider \<open>name\<close> of
  the configuration (the providers before it being disabled). When \<^verbatim>\<open>create()\<close> of
  its client answers with \<^verbatim>\<open>err\<close> set, the method returns the \<^verbatim>\<open>Result\<close> built from
  \<^verbatim>\<open>Failed to initialize provider "name": ...\<close>. When \<open>createClient\<close> throws, which
  it does when no factory is registered for the configured type or when the type is not
  a \<^verbatim>\<open>ProviderType\<close> value, the exception leaves \<open>initializeProviders\<close> as it is.
\<close>

lemma initializeProviders_outcomes:
  assumes "list_all (\<lambda>entry. \<not> enabled (snd entry)) skipped"
    and "enabled cfg"
  shows "(createClient (factories w) name cfg = Inl e \<longrightarrow>
            initializeProviders (Some (skipped @ (name, cfg) # rest)) w = (Inl e, w))
         \<and> (createClient (factories w) name cfg = Inr c
              \<and> err (client_create c (trace w)) = Some e' \<longrightarrow>
            initializeProviders (Some (skipped @ (name, cfg) # rest)) w
              = (Inr (Result (ErrObj (Error (initFailedMessage name (message e')))) None),
                 logCall (CreateCall (getName c)) w))
         \<and> (map_of (factories w) (provider_type cfg) = None \<longrightarrow>
            createClient (factories w) name cfg
              = Inl (Error (notRegisteredMessage (provider_type cfg) (map fst (factories w)))))
         \<and> (map_of (factories w) (provider_type cfg) = Some factory
              \<and> provider_type cfg \<notin> set ProviderType_values \<longrightarrow>
            createClient (factories w) name cfg
              = Inl (Error (''Invalid provider type: '' @ provider_type cfg)))"
  using assms
  by (simp add: initializeProviders_def initLoop_skip createClient_def Let_def)

lemma initializeProviders_outcomes_example:
  "enabled openaiConfig
   \<and> map_of (factories emptyWorld) (provider_type openaiConfig) = None
   \<and> initializeProviders (Some [(''acme'', openaiConfig)]) emptyWorld
       = (Inl (Error (notRegisteredMessage ''openai'' [])), emptyWorld)"
proof -
  have a: "list_all (\<lambda>entry. \<not> enabled (snd entry)) ([] :: (string \<times> providerConfig) list)"
    by simp
  have b: "enabled openaiConfig" "provider_type openaiConfig = ''openai''"
    by (simp_all add: openaiConfig_def)
  have c: "factories emptyWorld = []" by (simp add: emptyWorld_def)
  have d: "createClient (factories emptyWorld) ''acme'' openaiConfig
             = Inl (Error (notRegisteredMessage ''openai'' []))"
    by (simp add: createClient_def c b)
  show ?thesis
    using initializeProviders_outcomes[OF a b(1), where w = emptyWorld and name = "''acme''"
        and e = "Error (notRegisteredMessage ''openai'' [])" and rest = "[]"] b c d
    by simp
qed

text \<open>
  C8 at a start-up with one enabled provider of the registered type \<^verbatim>\<open>"openai"\<close>
  whose model-list request fails. \<^verbatim>\<open>create()\<close> answers without \<^verbatim>\<open>err\<close> and
  \<^verbatim>\<open>models()\<close> answers with the \<^verbatim>\<open>Error\<close> object as payload, because both are built
  by \<^verbatim>\<open>Result\<close>; \<open>initializeProviders\<close> does not return a result: the
  \<^verbatim>\<open>TypeError\<close> of \<^verbatim>\<open>for (const model of models)\<close> in \<open>registerModels\<close> leaves it
  as an exception, after both calls and before the client is stored.
\<close>

theorem initializeProviders_failed_fetch_throws:
  "map_of (factories startupWorld) (provider_type openaiConfig) = Some brokenFactory
   \<and> enabled openaiConfig
   \<and> err (client_create (brokenFactory ''acme'' openaiConfig) []) = None
   \<and> client_models (brokenFactory ''acme'' openaiConfig) [CreateCall ''acme'']
       = Result (ErrObj (Error ''OpenAI API error: 401 - denied'')) None
   \<and> fst (initializeProviders (Some [(''acme'', openaiConfig)]) startupWorld)
       = Inl (notIterable ''models'')
   \<and> trace (snd (initializeProviders (Some [(''acme'', openaiConfig)]) startupWorld))
       = [CreateCall ''acme'', ModelsCall ''acme'']
   \<and> map (fst) (clients (snd (initializeProviders (Some [(''acme'', openaiConfig)]) startupWorld)))
       = []"
  by (simp add: initializeProviders_def createClient_def startupWorld_def openaiConfig_def
      brokenFactory_def scriptedClient_def ProviderType_values_def Result_def createResult_def
      logCall_def truthy_def Let_def)

theorem initializeProviders_failed_fetch_throws_witness:
  "fst (initializeProviders (Some [(''acme'', openaiConfig)]) startupWorld)
     \<noteq> Inr (Result Null None)
   \<and> fst (initializeProviders (Some [(''acme'', openaiConfig)]) startupWorld)
     \<noteq> Inr (Result (ErrObj (Error (initFailedMessage ''acme''
                                        ''OpenAI API error: 401 - denied''))) None)"
  using initializeProviders_failed_fetch_throws by simp

section \<open>Readers during a refresh\<close>

text \<open>
  C9, amended. The removal of a provider's entries and their re-insertion are each
  done without suspension, but the fetch is awaited between them. For a registered
  provider and a table with unique keys: a reader scheduled during the fetch finds the
  table with every entry of that provider removed and every other entry in place, that
  is, no alias of the provider at all and never only some of them; after the method has
  resumed, the provider holds exactly the aliases of the filtered fetched models when the
  fetch delivered models, and the table is still the one without the provider's entries
  when the fetch reported a failure.
\<close>

theorem refresh_reader_observations:
  assumes "map_of (clients w) name = Some c"
    and "distinct (map fst (modelAliasesMapping w))"
  shows "tableDuringFetch name w
           = Some (filter (\<lambda>entry. snd entry \<noteq> name) (modelAliasesMapping w))
         \<and> aliasesOf name (filter (\<lambda>entry. snd entry \<noteq> name) (modelAliasesMapping w)) = []
         \<and> (if err (client_refreshModels c (trace w)) = None
               \<and> data (client_refreshModels c (trace w)) = Data ms
            then set (aliasesOf name (getModelAliasesMapping (snd (refreshModels name w))))
                   = (\<lambda>m. modelAlias name (model_id m)) ` set (applyFilter (globalConfig w) name ms)
            else if err (client_refreshModels c (trace w)) \<noteq> None
                    \<or> data (client_refreshModels c (trace w)) = Null
            then getModelAliasesMapping (snd (refreshModels name w))
                   = filter (\<lambda>entry. snd entry \<noteq> name) (modelAliasesMapping w)
            else True)"
proof -
  have t: "tableDuringFetch name w = Some (removeModels name (modelAliasesMapping w))"
    using assms(1)
    by (simp add: tableDuringFetch_def refreshModels_begin_def getModelAliasesMapping_def
        logCall_def)
  have r: "removeModels name (modelAliasesMapping w)
             = filter (\<lambda>entry. snd entry \<noteq> name) (modelAliasesMapping w)"
    using assms(2) by (rule removeModels_distinct)
  have z: "aliasesOf name (filter (\<lambda>entry. snd entry \<noteq> name) (modelAliasesMapping w)) = []"
    using aliasesOf_removeModels[of name "modelAliasesMapping w"] r by simp
  have s: "set (aliasesOf name (getModelAliasesMapping (snd (refreshModels name w))))
             = (\<lambda>m. modelAlias name (model_id m)) ` set (applyFilter (globalConfig w) name ms)"
    if "err (client_refreshModels c (trace w)) = None"
       "data (client_refreshModels c (trace w)) = Data ms"
    using that assms(1)
    by (simp add: refreshModels_registered refreshModels_resume_success(1) logCall_def
        getModelAliasesMapping_def aliasesOf_registerModels aliasesOf_removeModels)
  have f: "getModelAliasesMapping (snd (refreshModels name w))
             = filter (\<lambda>entry. snd entry \<noteq> name) (modelAliasesMapping w)"
    if "err (client_refreshModels c (trace w)) \<noteq> None
          \<or> data (client_refreshModels c (trace w)) = Null"
    using that assms(1) r
    by (simp add: refreshModels_registered refreshModels_resume_failure logCall_def
        getModelAliasesMapping_def)
  show ?thesis using t r z s f by auto
qed

theorem refresh_reader_observations_witness:
  "map_of (clients (acmeWorld steadyClient)) ''acme'' = Some steadyClient
   \<and> distinct (map fst (modelAliasesMapping (acmeWorld steadyClient)))
   \<and> tableDuringFetch ''acme'' (acmeWorld steadyClient) = Some []
   \<and> set (aliasesOf ''acme''
            (getModelAliasesMapping (snd (refreshModels ''acme'' (acmeWorld steadyClient)))))
       = {''acme/gpt'', ''acme/gpt-4''}"
proof -
  have s: "map_of (clients (acmeWorld steadyClient)) ''acme'' = Some steadyClient"
    "trace (acmeWorld steadyClient) = []"
    "globalConfig (acmeWorld steadyClient) = Some sampleConfig"
    "modelAliasesMapping (acmeWorld steadyClient) = [(''acme/gpt'', ''acme'')]"
    by (simp_all add: acmeWorld_def)
  have d: "distinct (map fst (modelAliasesMapping (acmeWorld steadyClient)))"
    by (simp add: s)
  have sf: "client_refreshModels steadyClient [] = Result (Data sampleModels) None"
    by (simp add: steadyClient_def scriptedClient_def)
  have af: "applyFilter (Some sampleConfig) ''acme'' sampleModels = sampleModels"
    by (simp add: applyFilter_def getConfig_def getProviderConfig_def sampleConfig_def)
  have img: "(\<lambda>m. modelAlias ''acme'' (model_id m)) ` set sampleModels = {''acme/gpt'', ''acme/gpt-4''}"
    by (simp add: sampleModels_def modelAlias_def)
  show ?thesis
    using refresh_reader_observations[OF s(1) d, of sampleModels] s d sf af img
    by (simp add: Result_def createResult_def)
qed

text \<open>
  The claim as stated fails: provider \<^verbatim>\<open>acme\<close> holds the alias
  \<^verbatim>\<open>acme/gpt\<close> before the refresh and \<^verbatim>\<open>acme/gpt\<close>, \<^verbatim>\<open>acme/gpt-4\<close> after it, and a
  reader scheduled while the method waits for the fetch finds neither set but an empty
  table.
\<close>

theorem refresh_reader_counterexample:
  "aliasesOf ''acme'' (getModelAliasesMapping (acmeWorld steadyClient)) = [''acme/gpt'']
   \<and> tableDuringFetch ''acme'' (acmeWorld steadyClient) = Some []
   \<and> aliasesOf ''acme''
       (getModelAliasesMapping (snd (refreshModels ''acme'' (acmeWorld steadyClient))))
       = [''acme/gpt'', ''acme/gpt-4'']"
  by code_simp

section \<open>The fake stream\<close>

lemma frames_append: "frames (xs @ ys) = frames xs @ frames ys"
  by (induction xs rule: frames.induct) simp_all

lemma frames_map_Enqueue: "frames (map Enqueue fs) = fs"
  by (induction fs) simp_all

lemma clearTimer_flags:
  "isCancelled (clearTimer s) = isCancelled s"
  "isCompleted (clearTimer s) = isCompleted s"
  "writable (clearTimer s) = writable s"
  "fakeStreamTimer (clearTimer s) = False"
  "frames (events (clearTimer s)) = frames (events s)"
  by (simp_all add: clearTimer_def frames_append)

lemma safeEnqueue_blocked:
  "isCompleted s \<or> isCancelled s \<Longrightarrow> safeEnqueue rt d s = (Inr False, s)"
  by (simp add: safeEnqueue_def)

lemma safeEnqueue_open:
  "\<not> isCompleted s \<Longrightarrow> \<not> isCancelled s \<Longrightarrow> writable s \<Longrightarrow>
   safeEnqueue rt d s = (Inr True, s\<lparr>events := events s @ [Enqueue d]\<rparr>)"
  by (simp add: safeEnqueue_def controller_enqueue_def)

lemma safeEnqueue_closed:
  "\<not> isCompleted s \<Longrightarrow> \<not> isCancelled s \<Longrightarrow> \<not> writable s \<Longrightarrow>
   str_includes (closedMessage rt) ''closed'' \<Longrightarrow>
   safeEnqueue rt d s = (Inr False, s\<lparr>isCancelled := True\<rparr>)"
  by (simp add: safeEnqueue_def controller_enqueue_def)

lemma sendAll_open:
  "\<not> isCompleted s \<Longrightarrow> \<not> isCancelled s \<Longrightarrow> writable s \<Longrightarrow>
   sendAll rt fs s = (Inr True, s\<lparr>events := events s @ map Enqueue fs\<rparr>)"
proof (induction fs arbitrary: s)
  case Nil
  then show ?case by simp
next
  case (Cons f fs)
  let ?s = "s\<lparr>events := events s @ [Enqueue f]\<rparr>"
  have "sendAll rt (f # fs) s = sendAll rt fs ?s"
    using Cons.prems by (simp add: safeEnqueue_open)
  also have "\<dots> = (Inr True, ?s\<lparr>events := events ?s @ map Enqueue fs\<rparr>)"
    using Cons.prems by (intro Cons.IH) simp_all
  finally show ?case by simp
qed

lemma sendAll_blocked:
  "isCompleted s \<or> isCancelled s \<Longrightarrow> fs \<noteq> [] \<Longrightarrow> sendAll rt fs s = (Inr False, s)"
  by (cases fs) (simp_all add: safeEnqueue_blocked)

lemma sendError_blocked:
  "isCompleted s \<or> isCancelled s \<Longrightarrow> sendError rt msg s = (Inr (), s)"
  by (auto simp: sendError_def safeEnqueue_blocked)

lemma tryBlock_blocked:
  assumes "isCompleted s \<or> isCancelled s"
  shows "frames (events (snd (tryBlock rt r s))) = frames (events s)
         \<and> isCancelled (snd (tryBlock rt r s)) = isCancelled s
         \<and> isCompleted (snd (tryBlock rt r s)) = isCompleted s"
proof -
  have b: "isCompleted (clearTimer s) \<or> isCancelled (clearTimer s)"
    using assms by (simp add: clearTimer_flags)
  show ?thesis
    using b
    by (auto simp: tryBlock_def Let_def sendError_blocked sendAll_blocked clearTimer_flags
        split: slot.splits)
qed

lemma catchBlock_blocked:
  assumes "isCompleted s \<or> isCancelled s"
  shows "frames (events (snd (catchBlock rt e s))) = frames (events s)
         \<and> isCancelled (snd (catchBlock rt e s)) = isCancelled s
         \<and> isCompleted (snd (catchBlock rt e s)) = isCompleted s"
proof -
  have b: "isCompleted (clearTimer s) \<or> isCancelled (clearTimer s)"
    using assms by (simp add: clearTimer_flags)
  show ?thesis
    using b by (simp add: catchBlock_def sendError_blocked clearTimer_flags)
qed

lemma settle_blocked:
  assumes "isCompleted s \<or> isCancelled s"
  shows "frames (events (snd (settle rt outcome s))) = frames (events s)
         \<and> isCancelled (snd (settle rt outcome s)) = isCancelled s
         \<and> isCompleted (snd (settle rt outcome s)) = isCompleted s"
proof (cases outcome)
  case (Inl e)
  then show ?thesis using catchBlock_blocked[OF assms] by (simp add: settle_def)
next
  case (Inr r)
  obtain x s' where t: "tryBlock rt r s = (x, s')" by (cases "tryBlock rt r s")
  from tryBlock_blocked[OF assms, of rt r] t
  have s': "frames (events s') = frames (events s)" "isCancelled s' = isCancelled s"
    "isCompleted s' = isCompleted s" by simp_all
  then have b': "isCompleted s' \<or> isCancelled s'" using assms by simp
  show ?thesis
    using Inr t s' catchBlock_blocked[OF b']
    by (cases x) (simp_all add: settle_def)
qed

lemma sendEmptyData_blocked:
  assumes "isCompleted s \<or> isCancelled s"
  shows "frames (events (snd (sendEmptyData rt req s))) = frames (events s)
         \<and> isCancelled (snd (sendEmptyData rt req s)) = isCancelled s
         \<and> isCompleted (snd (sendEmptyData rt req s)) = isCompleted s"
  using assms by (auto simp: sendEmptyData_def clearTimer_flags)

lemma step_cancelled:
  assumes "isCancelled s"
  shows "frames (events (step rt req stim s)) = frames (events s)
         \<and> isCancelled (step rt req stim s)"
proof (cases stim)
  case Tick
  then show ?thesis
    using assms sendEmptyData_blocked[of s rt req] by (simp add: step_def)
next
  case (Settled outcome)
  then show ?thesis
    using assms settle_blocked[of s rt outcome] by (simp add: step_def)
next
  case ConsumerCancel
  then show ?thesis
    using assms by (simp add: step_def cancel_def clearTimer_flags)
qed

lemma run_cancelled:
  "isCancelled s \<Longrightarrow>
   frames (events (run rt req stims s)) = frames (events s) \<and> isCancelled (run rt req stims s)"
proof (induction stims arbitrary: s)
  case Nil
  then show ?case by (simp add: run_def)
next
  case (Cons stim stims)
  from step_cancelled[OF Cons.prems, of rt req stim]
  have "frames (events (step rt req stim s)) = frames (events s)"
    and c: "isCancelled (step rt req stim s)" by simp_all
  moreover from Cons.IH[OF c]
  have "frames (events (run rt req stims (step rt req stim s)))
          = frames (events (step rt req stim s))"
    and "isCancelled (run rt req stims (step rt req stim s))" by simp_all
  ultimately show ?case by (simp add: run_def)
qed

lemma sse_framed: "prefix ''data: '' (sse j) \<and> suffix ''\<newline>\<newline>'' (sse j)"
  by (simp add: sse_def suffix_def)

lemma doneFrame_framed: "doneFrame = sse ''[DONE]''"
  by (simp add: doneFrame_def sse_def)

lemma roleFrames_framed:
  "list_all (\<lambda>f. prefix ''data: '' f \<and> suffix ''\<newline>\<newline>'' f) (roleFrames rt resp)"
  using sse_framed by (auto simp: roleFrames_def split: list.splits)

text \<open>
  C3. Let the orchestrator have delivered a response (no \<^verbatim>\<open>err\<close>, a response as
  payload) to a session that is neither cancelled nor completed and whose channel still
  accepts chunks. Then the emitter first clears the keep-alive timer (if it is armed)
  and only then writes, in this order: the role chunk, present exactly when the first
  choice exists and carries a non-empty role, built from the response's own id, created
  and model; one content chunk holding, for every choice, its whole content; one finish
  chunk holding, for every choice, its \<open>finish_reason\<close>; the literal
  \<^verbatim>\<open>data: [DONE]\n\n\<close>. It then marks the session completed and closes the channel.
  Every frame written starts with \<^verbatim>\<open>data: \<close> and ends with two newlines.
\<close>

theorem fake_stream_success_sequence:
  assumes "err r = None" and "data r = Data resp"
    and "\<not> isCancelled s" and "\<not> isCompleted s" and "writable s"
  shows "settle rt (Inr r) s
           = (Inr (),
              s\<lparr>fakeStreamTimer := False, isCompleted := True, writable := False,
                events := events s
                  @ (if fakeStreamTimer s then [ClearInterval] else [])
                  @ map Enqueue (roleFrames rt resp
                                  @ [contentFrame rt resp, finishFrame rt resp,
                                     ''data: [DONE]\<newline>\<newline>''])
                  @ [Close]\<rparr>)
         \<and> roleFrames rt resp
           = (case choices resp of
                [] \<Rightarrow> []
              | firstChoice # others \<Rightarrow>
                  if role (choice_message firstChoice) = [] then []
                  else [sse (stringify rt
                          (Chunk (response_id resp) (response_created resp) (response_model resp)
                             [ChunkChoice (index firstChoice)
                                (DeltaRole (role (choice_message firstChoice))) None]))])
         \<and> contentFrame rt resp
           = sse (stringify rt
                   (Chunk (response_id resp) (response_created resp) (response_model resp)
                      (map (\<lambda>c. ChunkChoice (index c)
                                   (DeltaContent (content (choice_message c))) None)
                         (choices resp))))
         \<and> finishFrame rt resp
           = sse (stringify rt
                   (Chunk (response_id resp) (response_created resp) (response_model resp)
                      (map (\<lambda>c. ChunkChoice (index c) DeltaEmpty (finish_reason c))
                         (choices resp))))
         \<and> list_all (\<lambda>f. prefix ''data: '' f \<and> suffix ''\<newline>\<newline>'' f)
             (roleFrames rt resp
                @ [contentFrame rt resp, finishFrame rt resp, ''data: [DONE]\<newline>\<newline>''])"
proof -
  let ?fs = "roleFrames rt resp @ [contentFrame rt resp, finishFrame rt resp, doneFrame]"
  let ?s1 = "clearTimer s"
  have f: "\<not> isCompleted ?s1" "\<not> isCancelled ?s1" "writable ?s1"
    using assms by (simp_all add: clearTimer_flags)
  have sa: "sendAll rt ?fs ?s1 = (Inr True, ?s1\<lparr>events := events ?s1 @ map Enqueue ?fs\<rparr>)"
    using f by (rule sendAll_open)
  have t: "tryBlock rt r s
             = (Inr (), closeQuietly (?s1\<lparr>events := events ?s1 @ map Enqueue ?fs,
                                          isCompleted := True\<rparr>))"
    using assms(1,2) f sa by (simp add: tryBlock_def Let_def truthy_def)
  have fin: "closeQuietly (?s1\<lparr>events := events ?s1 @ map Enqueue ?fs, isCompleted := True\<rparr>)
               = s\<lparr>fakeStreamTimer := False, isCompleted := True, writable := False,
                   events := events s
                     @ (if fakeStreamTimer s then [ClearInterval] else [])
                     @ map Enqueue ?fs @ [Close]\<rparr>"
    using assms(5) by (simp add: closeQuietly_def clearTimer_def)
  have framed: "list_all (\<lambda>f. prefix ''data: '' f \<and> suffix ''\<newline>\<newline>'' f) ?fs"
    using roleFrames_framed[of rt resp] sse_framed
    by (simp add: contentFrame_def finishFrame_def doneFrame_framed)
  have rf: "roleFrames rt resp
           = (case choices resp of
                [] \<Rightarrow> []
              | firstChoice # others \<Rightarrow>
                  if role (choice_message firstChoice) = [] then []
                  else [sse (stringify rt
                          (Chunk (response_id resp) (response_created resp) (response_model resp)
                             [ChunkChoice (index firstChoice)
                                (DeltaRole (role (choice_message firstChoice))) None]))])"
    by (simp add: roleFrames_def split: list.splits)
  have d: "doneFrame = ''data: [DONE]\<newline>\<newline>''" by (simp add: doneFrame_def)
  show ?thesis
    using t fin framed rf
    by (simp add: settle_def d contentFrame_def finishFrame_def)
qed

theorem fake_stream_success_sequence_witness:
  "err (Result (Data sampleResponse) None) = None
   \<and> writable sampleSession
   \<and> events (snd (settle sampleRuntime (Inr (Result (Data sampleResponse) None)) sampleSession))
       = [ClearInterval,
          Enqueue ''data: chatcmpl-1:role:assistant\<newline>\<newline>'',
          Enqueue ''data: chatcmpl-1:content:hello\<newline>\<newline>'',
          Enqueue ''data: chatcmpl-1:finish:stop\<newline>\<newline>'',
          Enqueue ''data: [DONE]\<newline>\<newline>'',
          Close]"
proof -
  have a: "err (Result (Data sampleResponse) None) = None"
    "data (Result (Data sampleResponse) None) = Data sampleResponse"
    by (simp_all add: Result_def createResult_def)
  have b: "\<not> isCancelled sampleSession" "\<not> isCompleted sampleSession" "writable sampleSession"
    "fakeStreamTimer sampleSession" "events sampleSession = []"
    by (simp_all add: sampleSession_def)
  have c: "roleFrames sampleRuntime sampleResponse = [''data: chatcmpl-1:role:assistant\<newline>\<newline>'']"
    "contentFrame sampleRuntime sampleResponse = ''data: chatcmpl-1:content:hello\<newline>\<newline>''"
    "finishFrame sampleRuntime sampleResponse = ''data: chatcmpl-1:finish:stop\<newline>\<newline>''"
    by (simp_all add: roleFrames_def contentFrame_def finishFrame_def sampleRuntime_def
        sampleResponse_def sse_def)
  show ?thesis
    using fake_stream_success_sequence[OF a b(1,2,3), of sampleRuntime] a b c
    by simp
qed

text \<open>
  C6. \<open>safeEnqueue\<close>, through which every frame is written, does nothing and
  answers \<open>false\<close> once the session is completed or cancelled; so a keep-alive tick
  and the whole continuation after the orchestrator (role, content, finish,
  \<^verbatim>\<open>[DONE]\<close> and error frames) add no frame to such a session. Once the cancelled flag
  is set (as the consumer's cancel sets it) it stays set and no frame is written by any
  later sequence of ticks, settlements and cancels. A write to a channel that no longer
  accepts chunks, which the runtime reports by a \<^verbatim>\<open>TypeError\<close> whose message contains
  \<^verbatim>\<open>closed\<close>, raises nothing: \<open>safeEnqueue\<close> answers \<open>false\<close> and sets the cancelled
  flag.
\<close>

theorem write_safety:
  "(isCompleted s \<or> isCancelled s \<longrightarrow>
      safeEnqueue rt d s = (Inr False, s)
      \<and> frames (events (snd (sendEmptyData rt req s))) = frames (events s)
      \<and> frames (events (snd (settle rt outcome s))) = frames (events s))
   \<and> (isCancelled s \<longrightarrow>
      frames (events (run rt req stims s)) = frames (events s)
      \<and> isCancelled (run rt req stims s))
   \<and> isCancelled (step rt req ConsumerCancel s)
   \<and> (\<not> isCompleted s \<and> \<not> isCancelled s \<and> \<not> writable s
        \<and> str_includes (closedMessage rt) ''closed'' \<longrightarrow>
      safeEnqueue rt d s = (Inr False, s\<lparr>isCancelled := True\<rparr>))"
  using safeEnqueue_blocked[of s rt d] sendEmptyData_blocked[of s rt req]
    settle_blocked[of s rt outcome] run_cancelled[of s rt req stims]
    safeEnqueue_closed[of s rt d]
  by (auto simp: step_def cancel_def clearTimer_flags)

theorem write_safety_witness:
  "isCancelled (step sampleRuntime sampleRequest ConsumerCancel sampleSession)
   \<and> frames (events (run sampleRuntime sampleRequest
                [Tick, ConsumerCancel, Tick, Settled (Inr (Result (Data sampleResponse) None)), Tick]
                sampleSession))
       = frames (events (step sampleRuntime sampleRequest Tick sampleSession))
   \<and> str_includes (closedMessage sampleRuntime) ''closed''
   \<and> safeEnqueue sampleRuntime doneFrame (sampleSession\<lparr>writable := False\<rparr>)
       = (Inr False, sampleSession\<lparr>writable := False, isCancelled := True\<rparr>)"
proof -
  let ?s1 = "step sampleRuntime sampleRequest Tick sampleSession"
  let ?s2 = "step sampleRuntime sampleRequest ConsumerCancel ?s1"
  let ?rest = "[Tick, Settled (Inr (Result (Data sampleResponse) None)), Tick]"
  have c2: "isCancelled ?s2"
    using write_safety[of ?s1 sampleRuntime doneFrame sampleRequest "Inl (Error [])" "[]"]
    by simp
  have f2: "frames (events ?s2) = frames (events ?s1)"
    by (simp add: step_def cancel_def clearTimer_def frames_append)
  have r: "frames (events (run sampleRuntime sampleRequest ?rest ?s2)) = frames (events ?s2)"
    using write_safety[of ?s2 sampleRuntime doneFrame sampleRequest "Inl (Error [])" ?rest] c2
    by simp
  have m: "str_includes (closedMessage sampleRuntime) ''closed''"
    by (simp add: sampleRuntime_def)
  have u: "\<not> isCompleted (sampleSession\<lparr>writable := False\<rparr>)"
    "\<not> isCancelled (sampleSession\<lparr>writable := False\<rparr>)"
    "\<not> writable (sampleSession\<lparr>writable := False\<rparr>)"
    by (simp_all add: sampleSession_def)
  have e: "safeEnqueue sampleRuntime doneFrame (sampleSession\<lparr>writable := False\<rparr>)
       = (Inr False, sampleSession\<lparr>writable := False, isCancelled := True\<rparr>)"
    using write_safety[of "sampleSession\<lparr>writable := False\<rparr>" sampleRuntime doneFrame
        sampleRequest "Inl (Error [])" "[]"] m u
    by simp
  have c1: "isCancelled (step sampleRuntime sampleRequest ConsumerCancel sampleSession)"
    using write_safety[of sampleSession sampleRuntime doneFrame sampleRequest "Inl (Error [])" "[]"]
    by simp
  show ?thesis using c1 f2 r m e by (simp add: run_def)
qed

section \<open>Snapshots of the alias table\<close>

lemma length_mutate: "length (mutate this m h) = length h"
  by (simp add: mutate_def)

lemma mutate_other: "r \<noteq> this \<Longrightarrow> mutate this m h ! r = h ! r"
  by (simp add: mutate_def)

lemma fold_mutate_other: "r \<noteq> this \<Longrightarrow> fold (mutate this) ms h ! r = h ! r"
  by (induction ms arbitrary: h) (simp_all add: mutate_other)

text \<open>
  C10. \<open>getModelAliasesMapping\<close> allocates a new \<^verbatim>\<open>Map\<close>: its address \<open>r\<close> is
  not the address of the manager's table and was not in use before, the rest of the store
  is untouched, and the new object holds the entries the table had at the call. Whatever
  sequence of \<open>registerModels\<close>, \<open>removeModels\<close> and \<open>destroyProvider\<close> runs
  afterwards, the object at \<open>r\<close> still holds exactly those entries.
\<close>

theorem snapshot_is_a_fresh_copy:
  assumes "this < length h"
    and "getModelAliasesMapping_obj this h = (r, h1)"
  shows "r \<noteq> this
         \<and> length h \<le> r
         \<and> h1 ! r = h ! this
         \<and> h1 ! this = h ! this
         \<and> take (length h) h1 = h
         \<and> fold (mutate this) ms h1 ! r = h ! this"
proof -
  from assms(2) have r: "r = length h" and h1: "h1 = h @ [h ! this]"
    by (simp_all add: getModelAliasesMapping_obj_def new_Map_def)
  from r assms(1) have ne: "r \<noteq> this" by simp
  have "fold (mutate this) ms h1 ! r = h1 ! r"
    using ne by (rule fold_mutate_other)
  then show ?thesis using r h1 assms(1) by (simp add: nth_append)
qed

theorem snapshot_is_a_fresh_copy_witness:
  "(0::nat) < length [[(''acme/gpt'', ''acme'')]]
   \<and> getModelAliasesMapping_obj 0 [[(''acme/gpt'', ''acme'')]]
       = (1, [[(''acme/gpt'', ''acme'')], [(''acme/gpt'', ''acme'')]])
   \<and> fold (mutate 0) [RemoveModels ''acme'', RegisterModels ''acme'' sampleModels,
                       DestroyProvider ''acme'' True]
        [[(''acme/gpt'', ''acme'')], [(''acme/gpt'', ''acme'')]] ! 1
       = [(''acme/gpt'', ''acme'')]
   \<and> fold (mutate 0) [RemoveModels ''acme'']
        [[(''acme/gpt'', ''acme'')], [(''acme/gpt'', ''acme'')]] ! 0 = []"
proof -
  have a: "(0::nat) < length [[(''acme/gpt'', ''acme'')]]" by simp
  have b: "getModelAliasesMapping_obj 0 [[(''acme/gpt'', ''acme'')]]
       = (1, [[(''acme/gpt'', ''acme'')], [(''acme/gpt'', ''acme'')]])"
    by (simp add: getModelAliasesMapping_obj_def new_Map_def)
  have c: "fold (mutate 0) [RemoveModels ''acme'']
        [[(''acme/gpt'', ''acme'')], [(''acme/gpt'', ''acme'')]] ! 0 = []"
    by (simp add: mutate_def removeModels_def)
  show ?thesis
    using snapshot_is_a_fresh_copy[OF a b,
        of "[RemoveModels ''acme'', RegisterModels ''acme'' sampleModels, DestroyProvider ''acme'' True]"]
      a b c
    by simp
qed

section \<open>The retrying orchestrator\<close>

text \<open>
  A \<^verbatim>\<open>Result\<close> built from an error does not count as an error, and the Router
  builds all its answers that way: no answer of the Router has \<^verbatim>\<open>err\<close> set.
\<close>

lemma Result_of_Error_not_isErr: "\<not> isErr (Result (ErrObj e) None)"
  by (simp add: isErr_def Result_def createResult_def)

lemma Router_completion_not_isErr: "\<not> isErr (fst (Router_completion req w))"
  by (simp add: isErr_def Router_completion_err_None)

lemma routerCalls_append: "routerCalls (cs @ ds) = routerCalls cs + routerCalls ds"
  by (induction cs rule: routerCalls.induct) simp_all

lemma routerCalls_Router_completion:
  "routerCalls (trace (snd (Router_completion req w))) = Suc (routerCalls (trace w))"
  by (simp add: Router_completion_def Let_def logCall_def routerCalls_append
      split: option.splits)

lemma retryLoop_error_throws:
  assumes "i \<le> n" and "data (fst (Router_completion req w)) = ErrObj e"
  shows "retryLoop i n req w
           = (Inl (undefinedProperty ''response.usage.completion_tokens''),
              snd (Router_completion req w))"
  using assms Router_completion_err_None[of req w]
  by (subst retryLoop.simps) (simp add: Let_def truthy_def)

lemma autoRetryCompletion_unknown_alias_throws:
  assumes "globalConfig w = Some cfg" and "1 \<le> maxRetries cfg"
    and "map_of (getModelAliasesMapping w) (model req) = None"
  shows "fst (autoRetryCompletion req w)
           = Inl (undefinedProperty ''response.usage.completion_tokens'')"
proof -
  have "map_of (getModelAliasesMapping (logCall (RouterCall req) w)) (model req) = None"
    using assms(3) by (simp add: getModelAliasesMapping_def logCall_def)
  then have "data (fst (Router_completion req w)) = ErrObj (Error (aliasNotFoundMessage (model req)))"
    by (simp add: Router_completion_def Let_def Result_def createResult_def)
  from retryLoop_error_throws[OF assms(2) this] assms(1)
  show ?thesis by (simp add: autoRetryCompletion_def getConfig_def)
qed

lemma retryLoop_calls_bound:
  "routerCalls (trace (snd (retryLoop i n req w))) \<le> routerCalls (trace w) + nat (n + 1 - i)"
proof (induction i n req w rule: retryLoop.induct)
  case (1 i n req w)
  let ?a = "Router_completion req w"
  show ?case
  proof (cases "i \<le> n")
    case False
    then show ?thesis by (subst retryLoop.simps) simp
  next
    case True
    have step: "routerCalls (trace (snd ?a)) = Suc (routerCalls (trace w))"
      by (rule routerCalls_Router_completion)
    have n: "Suc (nat (n + 1 - (i + 1))) = nat (n + 1 - i)" using True by simp
    have e: "err (fst ?a) = None" by (rule Router_completion_err_None)
    show ?thesis
    proof (cases "data (fst ?a)")
      case Null
      with True e have "retryLoop i n req w = retryLoop (i + 1) n req (snd ?a)"
        by (subst retryLoop.simps) (simp add: Let_def truthy_def)
      moreover have "routerCalls (trace (snd (retryLoop (i + 1) n req (snd ?a))))
              \<le> routerCalls (trace (snd ?a)) + nat (n + 1 - (i + 1))"
        using "1.IH"(1)[OF True refl refl refl] Null e by (simp add: truthy_def)
      ultimately show ?thesis using step n by simp
    next
      case (ErrObj x)
      with True have "retryLoop i n req w
           = (Inl (undefinedProperty ''response.usage.completion_tokens''), snd ?a)"
        by (intro retryLoop_error_throws) simp_all
      then show ?thesis using step n by simp
    next
      case (Data resp)
      show ?thesis
      proof (cases "completion_tokens (usage resp) = 0")
        case z: True
        with True e Data have "retryLoop i n req w = retryLoop (i + 1) n req (snd ?a)"
          by (subst retryLoop.simps) (simp add: Let_def truthy_def)
        moreover have "routerCalls (trace (snd (retryLoop (i + 1) n req (snd ?a))))
              \<le> routerCalls (trace (snd ?a)) + nat (n + 1 - (i + 1))"
          using "1.IH"(3)[OF True refl refl refl _ Data z] Data e by (simp add: truthy_def)
        ultimately show ?thesis using step n by simp
      next
        case nz: False
        with True e Data have "retryLoop i n req w = (Inr (Result (Data resp) None), snd ?a)"
          by (subst retryLoop.simps) (simp add: Let_def truthy_def)
        then show ?thesis using step n by simp
      qed
    qed
  qed
qed

text \<open>
  What does hold of the loop: a client whose every answer is empty
  (\<^verbatim>\<open>completion_tokens = 0\<close>) is asked exactly \<open>maxRetries = 3\<close> times, after which the
  \<^verbatim>\<open>Result\<close> built from \<^verbatim>\<open>Failed after max retries\<close> is returned.
\<close>

lemma autoRetryCompletion_always_empty:
  "fst (autoRetryCompletion sampleRequest (acmeWorld emptyClient))
     = Inr (Result (ErrObj (Error ''Failed after max retries'')) None)
   \<and> routerCalls (trace (snd (autoRetryCompletion sampleRequest (acmeWorld emptyClient)))) = 3
   \<and> completionCalls (trace (snd (autoRetryCompletion sampleRequest (acmeWorld emptyClient)))) = 3"
  by code_simp

text \<open>
  C1 at a client that fails once and would then succeed, with \<open>maxRetries = 3\<close>. The
  Router wraps the failure with \<^verbatim>\<open>Result<T>(new Error(...))\<close>, whose \<^verbatim>\<open>err\<close> is
  \<^verbatim>\<open>null\<close>; the orchestrator therefore does not take its retry branch, reads
  \<^verbatim>\<open>response.usage.completion_tokens\<close> of the \<^verbatim>\<open>Error\<close> object and throws a
  \<^verbatim>\<open>TypeError\<close> after one Router call and one client call, although the next call
  would have returned a non-empty response.
\<close>

theorem autoRetryCompletion_failed_attempt_not_retried:
  "fst (autoRetryCompletion sampleRequest (acmeWorld flakyClient))
     = Inl (undefinedProperty ''response.usage.completion_tokens'')
   \<and> routerCalls (trace (snd (autoRetryCompletion sampleRequest (acmeWorld flakyClient)))) = 1
   \<and> completionCalls (trace (snd (autoRetryCompletion sampleRequest (acmeWorld flakyClient)))) = 1
   \<and> maxRetries sampleConfig = 3
   \<and> fst (Router_completion sampleRequest
            (snd (autoRetryCompletion sampleRequest (acmeWorld flakyClient))))
       = Result (Data sampleResponse) None"
  by code_simp

theorem autoRetryCompletion_failed_attempt_not_retried_witness:
  "fst (autoRetryCompletion sampleRequest (acmeWorld flakyClient))
     \<noteq> Inr (Result (Data sampleResponse) None)
   \<and> routerCalls (trace (snd (autoRetryCompletion sampleRequest (acmeWorld flakyClient)))) < 2"
  using autoRetryCompletion_failed_attempt_not_retried by simp

end
